theory Spec2Isabelle
  imports Complex_Main "HOL-Library.Sublist"
begin

section \<open>AI job recommender: a shallow embedding of recommender.py\<close>

text \<open>
  The definitions below follow \<^verbatim>\<open>src/recommender.py\<close> function by function and keep its
  names. Conventions of the embedding:
  \<^item> a \<^typ>\<open>string\<close> is a Python \<open>str\<close> of code points below 256: a character is its
    code point, and \<open>str.lower\<close>, \<open>str.strip\<close> and the classes \<open>\s\<close> and \<open>\d\<close> are
    those of Python on these code points;
  \<^item> a Python float is the real number it denotes. The quotient and the product in
    \<open>skill_match_pct\<close> are rounded to the nearest double (\<open>fl\<close>); a float32 score of
    the index times 100 is exact in a double and is not rounded;
  \<^item> a pandas cell is an \<open>option\<close>: \<open>None\<close> is the missing value NaN;
  \<^item> an exception is a value \<open>Inl e\<close> of the result type \<open>error + 'a\<close>;
  \<^item> the collaborators outside the repository (the sentence encoder, PyMuPDF, the file
    system, pickle, the FAISS index) are parameters or are modelled from their contract,
    as said at each definition.
\<close>

datatype error =
    IndexError | ValueError | TypeError | ZeroDivisionError | AssertionError
  | FileNotFoundError | UnpicklingError

subsection \<open>Python strings\<close>

text \<open>
  \<open>c.isspace()\<close>, which is also what \<open>strip\<close> removes and what \<open>\s\<close> matches: the
  control characters 9-13 and 28-31, the space, NEL (U+0085) and the no-break space
  (U+00A0).
\<close>

definition isspace :: "char \<Rightarrow> bool" where
  "isspace c =
     (let n = (of_char c :: nat)
      in (9 \<le> n \<and> n \<le> 13) \<or> (28 \<le> n \<and> n \<le> 32) \<or> n = 133 \<or> n = 160)"

text \<open>The class \<open>\d\<close>: the decimal digits, below 256 the digits 0-9 only.\<close>

definition isdigit :: "char \<Rightarrow> bool" where
  "isdigit c = (let n = (of_char c :: nat) in 48 \<le> n \<and> n \<le> 57)"

text \<open>
  \<open>c.lower()\<close>: the letters A-Z and the Latin-1 capitals U+00C0-U+00DE, the
  multiplication sign U+00D7 excepted, move up by 32.
\<close>

definition lower_char :: "char \<Rightarrow> char" where
  "lower_char c =
     (let n = (of_char c :: nat)
      in if (65 \<le> n \<and> n \<le> 90) \<or> (192 \<le> n \<and> n \<le> 222 \<and> n \<noteq> 215)
         then char_of (n + 32) else c)"

text \<open>\<open>s.lower()\<close>\<close>

definition str_lower :: "string \<Rightarrow> string" where
  "str_lower s = map lower_char s"

text \<open>\<open>s.strip()\<close>: leading and trailing whitespace removed.\<close>

definition str_strip :: "string \<Rightarrow> string" where
  "str_strip s = rev (dropWhile isspace (rev (dropWhile isspace s)))"

text \<open>\<open>sub in s\<close> on strings: \<open>sub\<close> occurs in \<open>s\<close> as a contiguous substring.\<close>

fun str_contains :: "string \<Rightarrow> string \<Rightarrow> bool" where
  "str_contains sub [] = (sub = [])"
| "str_contains sub (c # cs) = (prefix sub (c # cs) \<or> str_contains sub cs)"

text \<open>\<open>s.split(c)\<close> for a separator of one character: never an empty list.\<close>

fun str_split :: "char \<Rightarrow> string \<Rightarrow> string list" where
  "str_split sep [] = [[]]"
| "str_split sep (c # cs) =
     (if c = sep then [] # str_split sep cs
      else (case str_split sep cs of
              [] \<Rightarrow> [[c]]
            | w # ws \<Rightarrow> (c # w) # ws))"

text \<open>
  \<open>int(s)\<close> on the text a \<open>(\d+)\<close> group captures: a non-empty string of decimal digits.
  CPython refuses a string of more than \<open>sys.get_int_max_str_digits()\<close> digits, 4300
  unless configured otherwise, with \<open>ValueError\<close>; leading zeros count. Any string that
  is not of digits only is reported as \<open>ValueError\<close> too (Python also accepts a sign,
  surrounding whitespace and underscores, which \<open>\d+\<close> never captures).
\<close>

definition INT_MAX_STR_DIGITS :: nat where
  "INT_MAX_STR_DIGITS = 4300"

definition digit_val :: "char \<Rightarrow> int" where
  "digit_val c = int (of_char c) - 48"

definition decimal_value :: "string \<Rightarrow> int" where
  "decimal_value s = foldl (\<lambda>acc c. 10 * acc + digit_val c) 0 s"

definition py_int :: "string \<Rightarrow> error + int" where
  "py_int s =
     (if s \<noteq> [] \<and> list_all isdigit s \<and> length s \<le> INT_MAX_STR_DIGITS
      then Inr (decimal_value s)
      else Inl ValueError)"

subsection \<open>Regular expressions: the backtracking matcher of \<open>re\<close>\<close>

text \<open>
  The fragment of Python's \<open>re\<close> syntax the three patterns use. \<open>Cls p\<close> is a character
  class (\<open>\d\<close>, \<open>\s\<close>, \<open>[:\s]\<close>), \<open>Opt r\<close> is \<open>r?\<close>, \<open>Star r\<close> is \<open>r*\<close> and \<open>Group r\<close> is the
  capturing group \<open>(r)\<close>; a non-capturing group \<open>(?:r)\<close> is \<open>r\<close> itself. All quantifiers are
  greedy.
\<close>

datatype regex =
    Eps
  | Lit string
  | Cls "char \<Rightarrow> bool"
  | Seq regex regex
  | Opt regex
  | Star regex
  | Group regex

text \<open>\<open>r+\<close> is \<open>r\<close> followed by \<open>r*\<close>.\<close>

definition Plus :: "regex \<Rightarrow> regex" where
  "Plus r = Seq r (Star r)"

definition cat :: "regex list \<Rightarrow> regex" where
  "cat rs = foldr Seq rs Eps"

text \<open>
  A matcher state is the text of group 1 so far (\<open>None\<close>: the group has not taken part)
  and the input still to read. \<open>rmatch r st\<close> lists every way \<open>r\<close> can match at the head
  of the input, in the order the backtracking engine tries them: the first element is
  the one \<open>re\<close> reports. An iteration of \<open>*\<close> that consumes nothing is not repeated.
\<close>

type_synonym mstate = "string option \<times> string"

function rmatch :: "regex \<Rightarrow> mstate \<Rightarrow> mstate list" where
  "rmatch Eps st = [st]"
| "rmatch (Lit l) st =
     (if prefix l (snd st) then [(fst st, drop (length l) (snd st))] else [])"
| "rmatch (Cls p) st =
     (case snd st of
        [] \<Rightarrow> []
      | c # cs \<Rightarrow> if p c then [(fst st, cs)] else [])"
| "rmatch (Seq a b) st = concat (map (rmatch b) (rmatch a st))"
| "rmatch (Opt a) st = rmatch a st @ [st]"
| "rmatch (Star a) st =
     concat (map (\<lambda>st'. if length (snd st') < length (snd st)
                          then rmatch (Star a) st' else [])
                 (rmatch a st)) @ [st]"
| "rmatch (Group a) st =
     map (\<lambda>st'. (Some (take (length (snd st) - length (snd st')) (snd st)), snd st'))
         (rmatch a st)"
  by pat_completeness auto
termination
  by (relation "measures [\<lambda>(r, st). size r, \<lambda>(r, st). length (snd st)]") auto

declare rmatch.simps(6) [simp del]

text \<open>
  \<open>re.search(pattern, s)\<close>: the match at the leftmost position where the pattern matches,
  as the text of its group 1; \<open>None\<close> when the pattern matches nowhere.
\<close>

fun re_search :: "regex \<Rightarrow> string \<Rightarrow> string option option" where
  "re_search r [] =
     (case rmatch r (None, []) of [] \<Rightarrow> None | m # _ \<Rightarrow> Some (fst m))"
| "re_search r (c # cs) =
     (case rmatch r (None, c # cs) of
        [] \<Rightarrow> re_search r cs
      | m # _ \<Rightarrow> Some (fst m))"

subsection \<open>Skill and keyword extractor\<close>

definition COMMON_SKILLS :: "string list" where
  "COMMON_SKILLS =
    [''python'', ''java'', ''javascript'', ''typescript'', ''c++'', ''c#'', ''swift'', ''kotlin'',
     ''react'', ''angular'', ''vue'', ''node.js'', ''flask'', ''django'', ''spring'',
     ''sql'', ''mysql'', ''postgresql'', ''mongodb'', ''redis'', ''oracle'',
     ''aws'', ''azure'', ''gcp'', ''docker'', ''kubernetes'', ''terraform'', ''jenkins'',
     ''machine learning'', ''deep learning'', ''nlp'', ''computer vision'',
     ''tensorflow'', ''pytorch'', ''scikit-learn'', ''pandas'', ''numpy'',
     ''git'', ''linux'', ''rest api'', ''graphql'', ''microservices'',
     ''spark'', ''kafka'', ''airflow'', ''tableau'', ''power bi'',
     ''html'', ''css'', ''agile'', ''scrum'', ''devops'', ''ci/cd'',
     ''blockchain'', ''solidity'', ''web3'', ''ethereum'',
     ''data analysis'', ''statistics'', ''excel'', ''r'']"

text \<open>
  \<open>list(set(found))\<close>: the skills found, each once. Python leaves the order of the list
  to the hash of the strings; the model lists them in vocabulary order, and the theorems
  speak of the set of its elements and of its length only.
\<close>

definition extract_skills_from_text :: "string \<Rightarrow> string list" where
  "extract_skills_from_text text =
     (let text_lower = str_lower text;
          found = filter (\<lambda>skill. str_contains skill text_lower) COMMON_SKILLS
      in remdups found)"

text \<open>
  The three patterns, in the order of the source:
  \<^verbatim>\<open>(\d+)\+?\s*years?\s*(?:of\s*)?experience\<close>,
  \<^verbatim>\<open>experience[:\s]+(\d+)\+?\s*years?\<close>,
  \<^verbatim>\<open>(\d+)\s*yrs?\s*(?:of\s*)?(?:work\s*)?experience\<close>.
\<close>

definition digits_group :: regex where
  "digits_group = Group (Plus (Cls isdigit))"

definition pattern1 :: regex where
  "pattern1 =
     cat [digits_group, Opt (Lit ''+''), Star (Cls isspace), Lit ''year'', Opt (Lit ''s''),
          Star (Cls isspace), Opt (cat [Lit ''of'', Star (Cls isspace)]), Lit ''experience'']"

definition pattern2 :: regex where
  "pattern2 =
     cat [Lit ''experience'', Plus (Cls (\<lambda>c. c = CHR '':'' \<or> isspace c)), digits_group,
          Opt (Lit ''+''), Star (Cls isspace), Lit ''year'', Opt (Lit ''s'')]"

definition pattern3 :: regex where
  "pattern3 =
     cat [digits_group, Star (Cls isspace), Lit ''yr'', Opt (Lit ''s''), Star (Cls isspace),
          Opt (cat [Lit ''of'', Star (Cls isspace)]),
          Opt (cat [Lit ''work'', Star (Cls isspace)]), Lit ''experience'']"

definition patterns :: "regex list" where
  "patterns = [pattern1, pattern2, pattern3]"

text \<open>
  \<open>int(match.group(1))\<close>: a group that took no part in the match is \<open>None\<close>, on which
  \<open>int\<close> raises \<open>TypeError\<close>.
\<close>

definition int_group1 :: "string option \<Rightarrow> error + int" where
  "int_group1 g = (case g of None \<Rightarrow> Inl TypeError | Some d \<Rightarrow> py_int d)"

text \<open>The loop \<open>for pattern in patterns\<close> with its early return.\<close>

fun experience_loop :: "regex list \<Rightarrow> string \<Rightarrow> error + int" where
  "experience_loop [] text = Inr 0"
| "experience_loop (pattern # rest) text =
     (case re_search pattern (str_lower text) of
        Some g \<Rightarrow> int_group1 g
      | None \<Rightarrow> experience_loop rest text)"

definition extract_experience_years :: "string \<Rightarrow> error + int" where
  "extract_experience_years text = experience_loop patterns text"

subsection \<open>Resume text extraction\<close>

text \<open>
  The files the extractor reads are a parameter. \<open>fitz_open path\<close> is what
  \<open>fitz.open(path)\<close> gives: \<open>None\<close> when it raises, else the pages of the document, where
  a page is its text or \<open>PageError\<close> when loading the page or \<open>get_text\<close> raises.
  \<open>open_read path\<close> is the decoded content of a text file, \<open>None\<close> when \<open>open\<close> or
  \<open>read\<close> raises.
\<close>

datatype pdf_page = PageText string | PageError

record filesystem =
  fitz_open :: "string \<Rightarrow> pdf_page list option"
  open_read :: "string \<Rightarrow> string option"

text \<open>
  The loop \<open>for page in doc: text += page.get_text()\<close> inside the \<open>try\<close>: an exception
  leaves the loop with the text read so far. (An exception of \<open>doc.close()\<close> after the
  loop is caught as well and leaves the whole text, so it needs no case of its own.)
\<close>

fun read_pages :: "pdf_page list \<Rightarrow> string \<Rightarrow> string" where
  "read_pages [] text = text"
| "read_pages (PageText t # doc) text = read_pages doc (text @ t)"
| "read_pages (PageError # doc) text = text"

definition extract_text_from_pdf :: "filesystem \<Rightarrow> string \<Rightarrow> string" where
  "extract_text_from_pdf fs pdf_path =
     (let text = (case fitz_open fs pdf_path of
                    None \<Rightarrow> []
                  | Some doc \<Rightarrow> read_pages doc [])
      in str_strip text)"

definition extract_text_from_txt :: "filesystem \<Rightarrow> string \<Rightarrow> string" where
  "extract_text_from_txt fs txt_path =
     (case open_read fs txt_path of
        Some content \<Rightarrow> str_strip content
      | None \<Rightarrow> [])"

text \<open>\<open>s.rfind(c)\<close>: the index of the last occurrence, \<open>-1\<close> when there is none.\<close>

definition rfind :: "char \<Rightarrow> string \<Rightarrow> int" where
  "rfind c s =
     (if c \<in> set s then int (length s) - 1 - int (length (takeWhile (\<lambda>x. x \<noteq> c) (rev s)))
      else - 1)"

text \<open>
  \<open>os.path.splitext\<close> of \<open>posixpath\<close>: the extension starts at the last dot of the last
  path component, unless only dots come before it in that component.
\<close>

definition splitext :: "string \<Rightarrow> string \<times> string" where
  "splitext p =
     (let sepIndex = rfind CHR ''/'' p; dotIndex = rfind CHR ''.'' p
      in if dotIndex > sepIndex \<and>
            list_ex (\<lambda>i. p ! i \<noteq> CHR ''.'') [nat (sepIndex + 1)..<nat dotIndex]
         then (take (nat dotIndex) p, drop (nat dotIndex) p)
         else (p, []))"

definition extract_resume_text :: "filesystem \<Rightarrow> string \<Rightarrow> string" where
  "extract_resume_text fs file_path =
     (let ext = str_lower (snd (splitext file_path))
      in if ext = ''.pdf'' then extract_text_from_pdf fs file_path
         else if ext \<in> set [''.txt'', ''.text''] then extract_text_from_txt fs file_path
         else [])"

subsection \<open>Job data loader\<close>

text \<open>
  A row of \<open>jobs.csv\<close> as \<open>pd.read_csv\<close> delivers it: every cell is a string or missing.
\<close>

record job_fields =
  title :: "string option"
  company :: "string option"
  location :: "string option"
  description :: "string option"
  skills :: "string option"
  experience_level :: "string option"
  salary_range :: "string option"

record csv_row = job_fields +
  job_id :: "int option"

record job = csv_row +
  combined_text :: string

text \<open>\<open>Series.fillna("")\<close> on one cell.\<close>

definition fillna :: "string option \<Rightarrow> string" where
  "fillna cell = (case cell of None \<Rightarrow> [] | Some s \<Rightarrow> s)"

definition combine_text :: "csv_row \<Rightarrow> string" where
  "combine_text r =
     fillna (title r) @ ''. '' @
     fillna (description r) @ ''. '' @
     ''Required skills: '' @ fillna (skills r) @ ''. '' @
     ''Level: '' @ fillna (experience_level r)"

definition add_combined_text :: "csv_row \<Rightarrow> job" where
  "add_combined_text r =
     \<lparr>title = title r, company = company r, location = location r,
      description = description r, skills = skills r,
      experience_level = experience_level r, salary_range = salary_range r,
      job_id = job_id r, combined_text = combine_text r\<rparr>"

text \<open>
  \<open>load_jobs\<close> on the rows \<open>pd.read_csv\<close> has read: the column expression of the source
  is computed row by row.
\<close>

definition load_jobs :: "csv_row list \<Rightarrow> job list" where
  "load_jobs df = map add_combined_text df"

text \<open>
  The template of the specification, as a format string: \<open>{name}\<close> is replaced by the
  value of the field \<open>name\<close>. This definition follows the words of the specification
  and is compared with \<open>combine_text\<close>, which follows the source.
\<close>

definition TEMPLATE :: string where
  "TEMPLATE = ''{title}. {description}. Required skills: {skills}. Level: {experience_level}''"

function format_template :: "string \<Rightarrow> (string \<Rightarrow> string) \<Rightarrow> string" where
  "format_template [] env = []"
| "format_template (c # cs) env =
     (if c = CHR ''{''
      then env (takeWhile (\<lambda>x. x \<noteq> CHR ''}'') cs) @
           format_template (drop 1 (dropWhile (\<lambda>x. x \<noteq> CHR ''}'') cs)) env
      else c # format_template cs env)"
  by pat_completeness auto
termination
  by (relation "measure (\<lambda>(t, env). length t)")
     (auto simp: less_Suc_eq_le intro: le_trans [OF diff_le_self length_dropWhile_le])

text \<open>The four source fields of a row by name, a missing one as the empty string.\<close>

definition source_field :: "csv_row \<Rightarrow> string \<Rightarrow> string" where
  "source_field r name =
     (if name = ''title'' then fillna (title r)
      else if name = ''description'' then fillna (description r)
      else if name = ''skills'' then fillna (skills r)
      else if name = ''experience_level'' then fillna (experience_level r)
      else [])"

subsection \<open>Embeddings and the vector index\<close>

type_synonym vec = "real list"

text \<open>
  \<open>sklearn.preprocessing.normalize\<close>: every row divided by its L2 norm, a zero row left
  as it is; an array without rows or without columns is refused.
\<close>

definition l2_norm :: "vec \<Rightarrow> real" where
  "l2_norm v = sqrt (sum_list (map (\<lambda>x. x * x) v))"

definition normalize_row :: "vec \<Rightarrow> vec" where
  "normalize_row v = (let n = l2_norm v in if n = 0 then v else map (\<lambda>x. x / n) v)"

definition normalize :: "vec list \<Rightarrow> error + vec list" where
  "normalize X =
     (case X of
        [] \<Rightarrow> Inl ValueError
      | v # _ \<Rightarrow> if v = [] then Inl ValueError else Inr (map normalize_row X))"

definition inner_product :: "vec \<Rightarrow> vec \<Rightarrow> real" where
  "inner_product a b = sum_list (map (\<lambda>(x, y). x * y) (zip a b))"

text \<open>
  Modelled from the spec: the Vector Index of section 4.3, which the source takes from
  the FAISS library (\<open>faiss.IndexFlatIP\<close>; not part of the repository). It is an exact
  flat scan: the score of a stored vector is its inner product with the query, the hits
  are sorted by descending score (ties in index order) and at most \<open>k\<close> are returned. As
  FAISS does, \<open>search\<close> always fills \<open>k\<close> slots per query and pads the missing hits with
  the label \<open>-1\<close> and the lowest float32; its Python wrapper asserts \<open>k > 0\<close> and the
  dimension of the queries.
\<close>

record faiss_index =
  d :: nat
  xb :: "vec list"

definition IndexFlatIP :: "nat \<Rightarrow> faiss_index" where
  "IndexFlatIP dimension = \<lparr>d = dimension, xb = []\<rparr>"

definition index_add :: "faiss_index \<Rightarrow> vec list \<Rightarrow> error + faiss_index" where
  "index_add idx X =
     (if list_all (\<lambda>v. length v = d idx) X then Inr (idx\<lparr>xb := xb idx @ X\<rparr>)
      else Inl AssertionError)"

definition FLT_LOWEST :: real where
  "FLT_LOWEST = - 340282346638528859811704183484516925440"

type_synonym hit = "int \<times> real"

definition search_one :: "faiss_index \<Rightarrow> nat \<Rightarrow> vec \<Rightarrow> hit list" where
  "search_one idx k q =
     (let scored = zip (map int [0..<length (xb idx)]) (map (inner_product q) (xb idx));
          best = take k (sort_key (\<lambda>h. - snd h) scored)
      in best @ replicate (k - length best) (- 1, FLT_LOWEST))"

definition index_search :: "faiss_index \<Rightarrow> vec list \<Rightarrow> int \<Rightarrow> error + hit list list" where
  "index_search idx X k =
     (if \<not> list_all (\<lambda>q. length q = d idx) X then Inl AssertionError
      else if \<not> k > 0 then Inl AssertionError
      else Inr (map (search_one idx (nat k)) X))"

subsection \<open>The recommendation engine\<close>

definition INDEX_PATH :: string where
  "INDEX_PATH = ''data/faiss_index.pkl''"

definition JOBS_PATH :: string where
  "JOBS_PATH = ''data/jobs.csv''"

text \<open>
  The attributes of a \<open>JobRecommender\<close> after \<open>__init__\<close>. \<open>model\<close> is the loaded sentence
  encoder, a parameter: \<open>model self text\<close> is the row \<open>self.model.encode\<close> returns for
  \<open>text\<close>.
\<close>

record engine =
  model :: "string \<Rightarrow> vec"
  jobs_df :: "job list"
  index :: faiss_index
  job_embeddings :: "vec list"

text \<open>
  The dictionary \<open>{"index": ..., "embeddings": ...}\<close> written to the cache, with its two
  keys as fields: a cache file is taken to hold such a dictionary.
\<close>

record saved =
  saved_index :: faiss_index
  saved_embeddings :: "vec list"

text \<open>
  The files of the engine: the CSV files by path, as the rows \<open>pd.read_csv\<close> reads, and
  the binary files by path, as blobs of a type \<open>'b\<close>. \<open>pickle\<close> is a parameter:
  \<open>pickle_loads\<close> gives \<open>None\<close> when \<open>pickle.load\<close> raises. Writing a file is taken to
  succeed.
\<close>

record 'b disk =
  csv_files :: "string \<Rightarrow> csv_row list option"
  bin_files :: "string \<Rightarrow> 'b option"

record 'b pickle =
  pickle_dumps :: "saved \<Rightarrow> 'b"
  pickle_loads :: "'b \<Rightarrow> saved option"

text \<open>
  \<open>_build_index\<close> reads \<open>self.model\<close> and \<open>self.jobs_df\<close>, sets \<open>self.index\<close> and
  \<open>self.job_embeddings\<close> and writes the cache: the model returns the engine with its
  four attributes and the new state of the disk.
\<close>

definition build_index ::
  "'b pickle \<Rightarrow> (string \<Rightarrow> vec) \<Rightarrow> job list \<Rightarrow> 'b disk \<Rightarrow> error + engine \<times> 'b disk" where
  "build_index pk mdl jobs dk =
     (let texts = map combined_text jobs in
      case normalize (map mdl texts) of
        Inl e \<Rightarrow> Inl e
      | Inr embeddings \<Rightarrow>
          (case embeddings of
             [] \<Rightarrow> Inl IndexError
           | row0 # _ \<Rightarrow>
               (case index_add (IndexFlatIP (length row0)) embeddings of
                  Inl e \<Rightarrow> Inl e
                | Inr idx \<Rightarrow>
                    Inr (\<lparr>model = mdl, jobs_df = jobs, index = idx,
                          job_embeddings = embeddings\<rparr>,
                         dk\<lparr>bin_files := (bin_files dk)
                               (INDEX_PATH \<mapsto>
                                  pickle_dumps pk \<lparr>saved_index = idx,
                                                    saved_embeddings = embeddings\<rparr>)\<rparr>))))"

definition build_or_load_index ::
  "'b pickle \<Rightarrow> (string \<Rightarrow> vec) \<Rightarrow> 'b disk \<Rightarrow> error + engine \<times> 'b disk" where
  "build_or_load_index pk mdl dk =
     (case csv_files dk JOBS_PATH of
        None \<Rightarrow> Inl FileNotFoundError
      | Some df \<Rightarrow>
          (let jobs = load_jobs df in
           case bin_files dk INDEX_PATH of
             Some blob \<Rightarrow>
               (case pickle_loads pk blob of
                  None \<Rightarrow> Inl UnpicklingError
                | Some sv \<Rightarrow>
                    Inr (\<lparr>model = mdl, jobs_df = jobs, index = saved_index sv,
                          job_embeddings = saved_embeddings sv\<rparr>, dk))
           | None \<Rightarrow> build_index pk mdl jobs dk))"

definition rebuild_index :: "'b pickle \<Rightarrow> engine \<Rightarrow> 'b disk \<Rightarrow> error + engine \<times> 'b disk" where
  "rebuild_index pk self dk =
     build_index pk (model self) (jobs_df self)
       (dk\<lparr>bin_files := (bin_files dk)(INDEX_PATH := None)\<rparr>)"

text \<open>
  \<open>round(x, 1)\<close>: Python rounds a float to the nearest multiple of one tenth, a tie to
  the even one.
\<close>

definition round_half_even :: "real \<Rightarrow> int" where
  "round_half_even x =
     (let f = \<lfloor>x\<rfloor>; r = x - of_int f
      in if r < 1 / 2 then f
         else if 1 / 2 < r then f + 1
         else if even f then f else f + 1)"

definition py_round1 :: "real \<Rightarrow> real" where
  "py_round1 x = of_int (round_half_even (x * 10)) / 10"

text \<open>
  The double nearest to a real number, a tie to the even mantissa: the number is scaled
  by a power of two until its integer part has the 53 bits of the mantissa, rounded to an
  integer and scaled back. The scaling stops at \<open>2 ^ 1074\<close>, below which doubles are
  subnormal. Numbers beyond the largest double do not occur here and are not given the
  value infinity.
\<close>

primrec find_shift :: "nat \<Rightarrow> nat \<Rightarrow> real \<Rightarrow> nat" where
  "find_shift 0 s a = s"
| "find_shift (Suc fuel) s a =
     (if 2 ^ 52 \<le> a * 2 ^ s then s else find_shift fuel (Suc s) a)"

primrec find_drop :: "nat \<Rightarrow> nat \<Rightarrow> real \<Rightarrow> nat" where
  "find_drop 0 t a = t"
| "find_drop (Suc fuel) t a =
     (if a / 2 ^ t < 2 ^ 53 then t else find_drop fuel (Suc t) a)"

definition fl :: "real \<Rightarrow> real" where
  "fl x =
     (let a = \<bar>x\<bar> in
      if a = 0 then 0
      else if a < 2 ^ 53
      then (let s = find_shift 1074 0 a
            in sgn x * (of_int (round_half_even (a * 2 ^ s)) / 2 ^ s))
      else (let t = find_drop 971 0 a
            in sgn x * (of_int (round_half_even (a / 2 ^ t)) * 2 ^ t)))"

text \<open>
  \<open>a / b\<close> on integers: division by zero raises; otherwise the result is the double
  nearest to the exact quotient, which is \<open>truediv\<close>.
\<close>

definition truediv :: "real \<Rightarrow> real \<Rightarrow> error + real" where
  "truediv a b = (if b = 0 then Inl ZeroDivisionError else Inr (a / b))"

definition float_truediv :: "real \<Rightarrow> real \<Rightarrow> error + real" where
  "float_truediv a b = (case truediv a b of Inl e \<Rightarrow> Inl e | Inr q \<Rightarrow> Inr (fl q))"

text \<open>\<open>a * b\<close> on floats.\<close>

definition float_mul :: "real \<Rightarrow> real \<Rightarrow> real" where
  "float_mul a b = fl (a * b)"

text \<open>\<open>df.iloc[i]\<close>: a negative position counts from the end.\<close>

definition iloc :: "'a list \<Rightarrow> int \<Rightarrow> error + 'a" where
  "iloc df i =
     (if 0 \<le> i \<and> i < int (length df) then Inr (df ! nat i)
      else if i < 0 \<and> - int (length df) \<le> i then Inr (df ! nat (int (length df) + i))
      else Inl IndexError)"

text \<open>\<open>str(cell)\<close>: the missing value prints as \<open>nan\<close>.\<close>

definition str_of_cell :: "string option \<Rightarrow> string" where
  "str_of_cell cell = (case cell of None \<Rightarrow> ''nan'' | Some s \<Rightarrow> s)"

text \<open>
  \<open>set(s.strip().lower() for s in str(row["skills"]).split(","))\<close>, the set as a list
  without repetitions.
\<close>

definition job_skills_of :: "string option \<Rightarrow> string list" where
  "job_skills_of cell =
     remdups (map (\<lambda>s. str_lower (str_strip s)) (str_split CHR '','' (str_of_cell cell)))"

text \<open>One entry of the list \<open>recommend\<close> returns.\<close>

record result = job_fields +
  rank :: int
  result_job_id :: int
  match_score :: real
  matched_skills :: "string list"
  skill_match_pct :: real

text \<open>
  The body of the loop of \<open>recommend\<close> for one hit, from \<open>resume_skills = ...\<close> to the
  dictionary appended to \<open>results\<close>. \<open>int(row["job_id"])\<close> raises on a missing
  identifier. The score is a float32 of the index: its product with 100 is exact in a
  double. The quotient of the two lengths and its product with 100 are rounded.
\<close>

definition make_result :: "string \<Rightarrow> int \<Rightarrow> job \<Rightarrow> real \<Rightarrow> error + result" where
  "make_result resume_text rnk row score =
     (let resume_skills = remdups (extract_skills_from_text resume_text);
          job_skills = job_skills_of (skills row);
          matched = filter (\<lambda>s. s \<in> set job_skills) resume_skills
      in case job_id row of
           None \<Rightarrow> Inl ValueError
         | Some jid \<Rightarrow>
             (case float_truediv (real (length matched))
                     (real (max (length job_skills) 1)) of
                Inl e \<Rightarrow> Inl e
              | Inr q \<Rightarrow>
                  Inr \<lparr>title = title row, company = company row, location = location row,
                       description = description row, skills = skills row,
                       experience_level = experience_level row,
                       salary_range = salary_range row,
                       rank = rnk, result_job_id = jid,
                       match_score = py_round1 (score * 100),
                       matched_skills = matched,
                       skill_match_pct = py_round1 (float_mul q 100)\<rparr>))"

text \<open>
  \<open>for rank, (idx, score) in enumerate(zip(indices[0], scores[0]), start=1)\<close>: a padded
  hit is skipped, and its rank with it.
\<close>

fun recommend_loop :: "engine \<Rightarrow> string \<Rightarrow> int \<Rightarrow> hit list \<Rightarrow> error + result list" where
  "recommend_loop self resume_text rnk [] = Inr []"
| "recommend_loop self resume_text rnk ((idx, score) # hits) =
     (if idx = - 1 then recommend_loop self resume_text (rnk + 1) hits
      else
        (case iloc (jobs_df self) idx of
           Inl e \<Rightarrow> Inl e
         | Inr row \<Rightarrow>
             (case make_result resume_text rnk row score of
                Inl e \<Rightarrow> Inl e
              | Inr r \<Rightarrow>
                  (case recommend_loop self resume_text (rnk + 1) hits of
                     Inl e \<Rightarrow> Inl e
                   | Inr results \<Rightarrow> Inr (r # results)))))"

text \<open>
  The calls \<open>recommend\<close> makes to the encoder and to the index are recorded, in order,
  beside its result.
\<close>

datatype event = Encode "string list" | Search "vec list" int

definition recommend :: "engine \<Rightarrow> string \<Rightarrow> int \<Rightarrow> event list \<times> (error + result list)" where
  "recommend self resume_text top_k =
     (if str_strip resume_text = [] then ([], Inr [])
      else
        (case normalize (map (model self) [resume_text]) of
           Inl e \<Rightarrow> ([Encode [resume_text]], Inl e)
         | Inr resume_vec \<Rightarrow>
             (let trace = [Encode [resume_text], Search resume_vec top_k] in
              case index_search (index self) resume_vec top_k of
                Inl e \<Rightarrow> (trace, Inl e)
              | Inr rows \<Rightarrow>
                  (case rows of
                     [] \<Rightarrow> (trace, Inl IndexError)
                   | hits # _ \<Rightarrow> (trace, recommend_loop self resume_text 1 hits)))))"

definition recommend_from_text_input ::
  "engine \<Rightarrow> string \<Rightarrow> int \<Rightarrow> event list \<times> (error + result list)" where
  "recommend_from_text_input self user_text top_k = recommend self user_text top_k"

definition recommend_from_file ::
  "engine \<Rightarrow> filesystem \<Rightarrow> string \<Rightarrow> int \<Rightarrow> event list \<times> (error + result list)" where
  "recommend_from_file self fs file_path top_k =
     (let text = extract_resume_text fs file_path
      in if text = [] then ([], Inr []) else recommend self text top_k)"

subsection \<open>Notions used in the statements\<close>

text \<open>A pattern without a capturing group.\<close>

fun groupless :: "regex \<Rightarrow> bool" where
  "groupless Eps = True"
| "groupless (Lit l) = True"
| "groupless (Cls p) = True"
| "groupless (Seq a b) = (groupless a \<and> groupless b)"
| "groupless (Opt a) = groupless a"
| "groupless (Star a) = groupless a"
| "groupless (Group a) = False"

text \<open>Group 1 took part in the match and its text is a non-empty string of digits.\<close>

definition digits_cap :: "string option \<Rightarrow> bool" where
  "digits_cap g = (case g of None \<Rightarrow> False | Some u \<Rightarrow> u \<noteq> [] \<and> list_all isdigit u)"

text \<open>The text a page contributes: nothing when it cannot be read.\<close>

fun page_text :: "pdf_page \<Rightarrow> string" where
  "page_text (PageText t) = t"
| "page_text PageError = []"

subsection \<open>A small catalog, used to run the definitions\<close>

definition example_rows :: "csv_row list" where
  "example_rows =
     [\<lparr>title = Some ''Backend Engineer'', company = Some ''Acme'', location = Some ''Remote'',
       description = Some ''Build services'', skills = Some ''python, sql, docker'',
       experience_level = Some ''Mid'', salary_range = None, job_id = Some 1\<rparr>,
      \<lparr>title = Some ''Systems Developer'', company = Some ''Initech'', location = None,
       description = Some ''Low-level code'', skills = Some ''Rust, Docker'',
       experience_level = Some ''Senior'', salary_range = Some ''90k'', job_id = Some 2\<rparr>,
      \<lparr>title = Some ''Office Assistant'', company = None, location = Some ''Pune'',
       description = None, skills = None,
       experience_level = Some ''Junior'', salary_range = None, job_id = Some 3\<rparr>]"

text \<open>An encoder with two directions: texts that mention python, and the others.\<close>

definition example_model :: "string \<Rightarrow> vec" where
  "example_model text = (if str_contains ''python'' (str_lower text) then [3, 4] else [4, 3])"

definition example_embeddings :: "vec list" where
  "example_embeddings = [[3 / 5, 4 / 5], [4 / 5, 3 / 5], [4 / 5, 3 / 5]]"

definition example_index :: faiss_index where
  "example_index = \<lparr>d = 2, xb = example_embeddings\<rparr>"

definition example_engine :: engine where
  "example_engine =
     \<lparr>model = example_model, jobs_df = load_jobs example_rows, index = example_index,
      job_embeddings = example_embeddings\<rparr>"

definition example_resume :: string where
  "example_resume = ''Rust and Python developer, 5 yrs of experience with Docker''"

definition example_hits :: "hit list" where
  "example_hits =
     [(0, 1), (1, 24 / 25), (2, 24 / 25), (- 1, FLT_LOWEST), (- 1, FLT_LOWEST)]"

definition example_results :: "result list" where
  "example_results =
     [\<lparr>title = Some ''Backend Engineer'', company = Some ''Acme'', location = Some ''Remote'',
       description = Some ''Build services'', skills = Some ''python, sql, docker'',
       experience_level = Some ''Mid'', salary_range = None, rank = 1, result_job_id = 1,
       match_score = 100, matched_skills = [''python'', ''docker''],
       skill_match_pct = 667 / 10\<rparr>,
      \<lparr>title = Some ''Systems Developer'', company = Some ''Initech'', location = None,
       description = Some ''Low-level code'', skills = Some ''Rust, Docker'',
       experience_level = Some ''Senior'', salary_range = Some ''90k'', rank = 2,
       result_job_id = 2, match_score = 96, matched_skills = [''docker''],
       skill_match_pct = 50\<rparr>,
      \<lparr>title = Some ''Office Assistant'', company = None, location = Some ''Pune'',
       description = None, skills = None, experience_level = Some ''Junior'',
       salary_range = None, rank = 3, result_job_id = 3, match_score = 96,
       matched_skills = [], skill_match_pct = 0\<rparr>]"

definition example_trace :: "event list" where
  "example_trace = [Encode [example_resume], Search [[3 / 5, 4 / 5]] 5]"

text \<open>
  Files: a readable PDF under an upper-case extension, whose text is the example resume,
  a PDF whose second page cannot be read, and a text file of whitespace.
\<close>

definition example_fs :: filesystem where
  "example_fs =
     \<lparr>fitz_open = (\<lambda>path.
        if path = ''CV.PDF''
        then Some [PageText ''Rust and Python developer, '',
                   PageText ''5 yrs of experience with Docker '']
        else if path = ''damaged.pdf''
        then Some [PageText ''Python developer '', PageError, PageText ''Docker'']
        else None),
      open_read = (\<lambda>path. if path = ''notes.txt'' then Some ''  '' else None)\<rparr>"

text \<open>A pickle that stores the dictionary as it is, and a disk with the catalog only.\<close>

definition example_pickle :: "saved pickle" where
  "example_pickle = \<lparr>pickle_dumps = (\<lambda>sv. sv), pickle_loads = (\<lambda>blob. Some blob)\<rparr>"

definition example_disk :: "saved disk" where
  "example_disk =
     \<lparr>csv_files = (\<lambda>path. if path = JOBS_PATH then Some example_rows else None),
      bin_files = (\<lambda>path. None)\<rparr>"

definition example_disk_cached :: "saved disk" where
  "example_disk_cached =
     example_disk\<lparr>bin_files := (bin_files example_disk)
       (INDEX_PATH \<mapsto> \<lparr>saved_index = example_index, saved_embeddings = example_embeddings\<rparr>)\<rparr>"

section \<open>Properties\<close>

subsection \<open>Strings\<close>

lemma str_strip_blank: "str_strip s = [] \<longleftrightarrow> list_all isspace s"
proof
  assume "list_all isspace s"
  then show "str_strip s = []"
    by (auto simp: str_strip_def list_all_iff dest: set_dropWhileD)
next
  assume a: "str_strip s = []"
  show "list_all isspace s"
  proof (rule ccontr)
    assume "\<not> list_all isspace s"
    then have "dropWhile isspace s \<noteq> []" by (simp add: list_all_iff)
    then obtain c cs where cs: "dropWhile isspace s = c # cs"
      by (cases "dropWhile isspace s") auto
    then have "\<not> isspace c" using hd_dropWhile [of isspace s] by auto
    then have "c \<in> set (rev (dropWhile isspace s)) \<and> \<not> isspace c" using cs by simp
    then have "dropWhile isspace (rev (dropWhile isspace s)) \<noteq> []"
      by (metis dropWhile_eq_Nil_conv)
    then show False using a by (simp add: str_strip_def)
  qed
qed

lemma str_split_not_Nil: "str_split sep s \<noteq> []"
  by (induction s) (auto split: list.splits)

lemma job_skills_of_not_Nil: "job_skills_of cell \<noteq> []"
  by (simp add: job_skills_of_def str_split_not_Nil)

lemma str_contains_sublist: "str_contains sub s \<longleftrightarrow> sublist sub s"
  by (induction s) (auto simp: sublist_Cons_right)

subsection \<open>Rounding\<close>

lemma round_half_even_bounds:
  "\<lfloor>x\<rfloor> \<le> round_half_even x \<and> round_half_even x \<le> \<lfloor>x\<rfloor> + 1"
  by (simp add: round_half_even_def Let_def)

lemma round_half_even_mono:
  assumes "x \<le> y"
  shows "round_half_even x \<le> round_half_even y"
proof (cases "\<lfloor>x\<rfloor> = \<lfloor>y\<rfloor>")
  case True
  with assms show ?thesis by (simp add: round_half_even_def Let_def)
next
  case False
  with assms have "\<lfloor>x\<rfloor> + 1 \<le> \<lfloor>y\<rfloor>" using floor_mono [of x y] by linarith
  then show ?thesis
    using round_half_even_bounds [of x] round_half_even_bounds [of y] by linarith
qed

lemma py_round1_mono: "x \<le> y \<Longrightarrow> py_round1 x \<le> py_round1 y"
  using round_half_even_mono [of "x * 10" "y * 10"]
  by (simp add: py_round1_def divide_right_mono)

lemma py_round1_0: "py_round1 0 = 0"
  by (simp add: py_round1_def round_half_even_def)

lemma py_round1_100: "py_round1 100 = 100"
  by (simp add: py_round1_def round_half_even_def)

lemma round_half_even_of_int: "round_half_even (of_int k) = k"
  by (simp add: round_half_even_def)

lemma round_half_even_nonneg: "0 \<le> x \<Longrightarrow> 0 \<le> round_half_even x"
  using round_half_even_bounds [of x] by (simp add: order_trans [of 0 "\<lfloor>x\<rfloor>"])

subsection \<open>Rounding to a double\<close>

lemma fl_0: "fl 0 = 0"
  by (simp add: fl_def)

lemma fl_nonneg: "0 \<le> x \<Longrightarrow> 0 \<le> fl x"
  by (simp add: fl_def Let_def round_half_even_nonneg)

text \<open>Rounding never passes an integer: the integers of this size are doubles.\<close>

lemma fl_le_of_int:
  assumes "0 \<le> x" and "x \<le> of_int c" and "x < 2 ^ 53"
  shows "fl x \<le> of_int c"
proof (cases "x = 0")
  case True
  with assms(2) show ?thesis by (simp add: fl_0)
next
  case False
  define s where "s = find_shift 1074 0 x"
  from False assms(1,3) have f: "fl x = of_int (round_half_even (x * 2 ^ s)) / 2 ^ s"
    by (simp add: fl_def Let_def s_def)
  from assms(2) have "x * 2 ^ s \<le> of_int (c * 2 ^ s)" by simp
  then have "round_half_even (x * 2 ^ s) \<le> round_half_even (of_int (c * 2 ^ s))"
    by (rule round_half_even_mono)
  then have "round_half_even (x * 2 ^ s) \<le> c * 2 ^ s"
    by (simp only: round_half_even_of_int)
  then have "(of_int (round_half_even (x * 2 ^ s)) :: real) \<le> of_int (c * 2 ^ s)"
    by (simp only: of_int_le_iff)
  then show ?thesis unfolding f by (simp add: pos_divide_le_eq)
qed

subsection \<open>The loop of \<open>recommend\<close>\<close>

lemma make_result_fields:
  assumes "make_result resume_text rnk row score = Inr r"
  shows "rank r = rnk"
    and "match_score r = py_round1 (score * 100)"
    and "skills r = skills row"
    and "matched_skills r =
           filter (\<lambda>s. s \<in> set (job_skills_of (skills row)))
                  (remdups (extract_skills_from_text resume_text))"
    and "float_truediv (real (length (matched_skills r)))
                       (real (max (length (job_skills_of (skills row))) 1)) =
           Inr (fl (real (length (matched_skills r)) /
                    real (max (length (job_skills_of (skills row))) 1)))"
    and "skill_match_pct r =
           py_round1 (float_mul (fl (real (length (matched_skills r)) /
                                     real (max (length (job_skills_of (skills row))) 1))) 100)"
  using assms
  by (auto simp: make_result_def Let_def float_truediv_def truediv_def
      split: option.splits if_splits)

lemma recommend_loop_made:
  "recommend_loop self resume_text rnk hits = Inr results \<Longrightarrow> r \<in> set results \<Longrightarrow>
   \<exists>rnk' row score. make_result resume_text rnk' row score = Inr r"
proof (induction hits arbitrary: rnk results)
  case Nil
  then show ?case by simp
next
  case (Cons h hits)
  obtain idx score where h: "h = (idx, score)" by (cases h)
  show ?case
  proof (cases "idx = - 1")
    case True
    with Cons h show ?thesis by simp
  next
    case False
    with Cons.prems h obtain row r0 rest where
      "make_result resume_text rnk row score = Inr r0"
      "recommend_loop self resume_text (rnk + 1) hits = Inr rest"
      "results = r0 # rest"
      by (auto split: sum.splits)
    with Cons.IH [of "rnk + 1" rest] Cons.prems(2) show ?thesis by auto
  qed
qed

lemma recommend_loop_padding:
  "\<forall>h\<in>set pad. fst h = - 1 \<Longrightarrow>
   recommend_loop self resume_text rnk (hits @ pad) = recommend_loop self resume_text rnk hits"
proof (induction hits arbitrary: rnk)
  case Nil
  then show ?case by (induction pad arbitrary: rnk) auto
next
  case (Cons h hits)
  then show ?case by (cases h) (simp split: sum.splits)
qed

lemma recommend_loop_valid:
  "\<forall>h\<in>set hits. fst h \<noteq> - 1 \<Longrightarrow>
   recommend_loop self resume_text rnk hits = Inr results \<Longrightarrow>
   map rank results = map (\<lambda>i. rnk + int i) [0..<length hits] \<and>
   map match_score results = map (\<lambda>h. py_round1 (snd h * 100)) hits"
proof (induction hits arbitrary: rnk results)
  case Nil
  then show ?case by simp
next
  case (Cons h hits)
  obtain idx score where h: "h = (idx, score)" by (cases h)
  with Cons.prems obtain row r0 rest where
    r0: "make_result resume_text rnk row score = Inr r0" and
    rest: "recommend_loop self resume_text (rnk + 1) hits = Inr rest" and
    res: "results = r0 # rest"
    by (auto split: sum.splits)
  from Cons.IH [OF _ rest] Cons.prems(1)
  have ih: "map rank rest = map (\<lambda>i. rnk + 1 + int i) [0..<length hits]"
    "map match_score rest = map (\<lambda>h. py_round1 (snd h * 100)) hits"
    by auto
  have "[0..<length (h # hits)] = 0 # map Suc [0..<length hits]"
    by (simp add: upt_conv_Cons map_Suc_upt del: upt_Suc)
  then show ?case
    using ih make_result_fields(1,2) [OF r0] res h by (simp add: o_def add.assoc)
qed

subsection \<open>The index search\<close>

lemma search_one_shape:
  obtains best where
    "search_one idx k q = best @ replicate (k - length best) (- 1, FLT_LOWEST)"
    "length best \<le> k"
    "\<forall>h\<in>set best. 0 \<le> fst h \<and> nat (fst h) < length (xb idx) \<and>
        snd h = inner_product q (xb idx ! nat (fst h))"
    "sorted (map (\<lambda>h. - snd h) best)"
proof -
  define scored where
    "scored = zip (map int [0..<length (xb idx)]) (map (inner_product q) (xb idx))"
  define best where "best = take k (sort_key (\<lambda>h. - snd h) scored)"
  have 1: "search_one idx k q = best @ replicate (k - length best) (- 1, FLT_LOWEST)"
    by (simp add: search_one_def Let_def best_def scored_def)
  have 2: "length best \<le> k" by (simp add: best_def)
  have sc: "0 \<le> fst h \<and> nat (fst h) < length (xb idx) \<and>
        snd h = inner_product q (xb idx ! nat (fst h))" if "h \<in> set scored" for h
  proof -
    from that obtain i where "i < length scored" "h = scored ! i"
      by (auto simp: in_set_conv_nth)
    then show ?thesis by (simp add: scored_def)
  qed
  have "set best \<subseteq> set scored"
    using set_take_subset [of k "sort_key (\<lambda>h. - snd h) scored"] by (simp add: best_def)
  with sc have 3: "\<forall>h\<in>set best. 0 \<le> fst h \<and> nat (fst h) < length (xb idx) \<and>
        snd h = inner_product q (xb idx ! nat (fst h))" by blast
  have "sorted (map (\<lambda>h. - snd h) (sort_key (\<lambda>h. - snd h) scored))"
    by (rule sorted_sort_key)
  then have 4: "sorted (map (\<lambda>h. - snd h) best)"
    unfolding best_def take_map [symmetric] by (rule sorted_wrt_take)
  from 1 2 3 4 show ?thesis by (rule that)
qed

lemma filter_valid_hits:
  "\<forall>h\<in>set best. fst h \<noteq> - 1 \<Longrightarrow>
   filter (\<lambda>h. fst h \<noteq> - 1) (best @ replicate n (- 1, s)) = best"
  by (induction best) auto

lemma scores_descending:
  assumes "sorted (map (\<lambda>h. - snd h) (best :: hit list))"
  shows "sorted_wrt (\<lambda>a b. b \<le> a) (map (\<lambda>h. py_round1 (snd h * 100)) best)"
proof -
  from assms have "sorted_wrt (\<lambda>a b. - snd a \<le> - snd b) best"
    by (simp add: sorted_map)
  then have "sorted_wrt (\<lambda>a b. py_round1 (snd b * 100) \<le> py_round1 (snd a * 100)) best"
    by (rule sorted_wrt_mono_rel [rotated]) (simp add: py_round1_mono)
  then show ?thesis by (simp add: sorted_wrt_map)
qed

lemma recommend_searched:
  assumes "recommend self resume_text top_k = (trace, Inr results)"
    and "str_strip resume_text \<noteq> []"
  obtains hits where
    "0 < top_k"
    "index_search (index self) [normalize_row (model self resume_text)] top_k = Inr [hits]"
    "hits = search_one (index self) (nat top_k) (normalize_row (model self resume_text))"
    "recommend_loop self resume_text 1 hits = Inr results"
proof -
  from assms have n: "normalize [model self resume_text] = Inr [normalize_row (model self resume_text)]"
    by (auto simp: recommend_def normalize_def split: if_splits sum.splits)
  with assms obtain rows where
    r: "index_search (index self) [normalize_row (model self resume_text)] top_k = Inr rows"
    by (auto simp: recommend_def Let_def split: sum.splits)
  then have k: "0 < top_k" and
    rows: "rows = [search_one (index self) (nat top_k) (normalize_row (model self resume_text))]"
    by (auto simp: index_search_def split: if_splits)
  from assms n r rows have
    "recommend_loop self resume_text 1
       (search_one (index self) (nat top_k) (normalize_row (model self resume_text))) = Inr results"
    by (simp add: recommend_def Let_def)
  with k r rows show ?thesis using that by simp
qed

subsection \<open>The regular expressions\<close>

lemma rmatch_groupless:
  "groupless r \<Longrightarrow> st' \<in> set (rmatch r st) \<Longrightarrow> fst st' = fst st"
proof (induction r st arbitrary: st' rule: rmatch.induct)
  case (4 a b st)
  from "4.prems" obtain st1 where
    st1: "st1 \<in> set (rmatch a st)" and st': "st' \<in> set (rmatch b st1)"
    by auto
  from "4.prems"(1) have ga: "groupless a" and gb: "groupless b" by simp_all
  from "4.IH"(1) [OF ga st1] "4.IH"(2) [OF st1 gb st'] show ?case by simp
next
  case (6 a st)
  from "6.prems"(1) have ga: "groupless a" by simp
  show ?case
  proof (cases "st' = st")
    case True
    then show ?thesis by simp
  next
    case False
    from "6.prems"(2) have
      "st' \<in> set (concat (map (\<lambda>st'. if length (snd st') < length (snd st)
                                           then rmatch (Star a) st' else [])
                                  (rmatch a st)) @ [st])"
      by (subst (asm) rmatch.simps(6))
    with False obtain st1 where
      st1: "st1 \<in> set (rmatch a st)" and
      lt: "length (snd st1) < length (snd st)" and
      st': "st' \<in> set (rmatch (Star a) st1)"
      by (auto split: if_splits)
    from "6.IH"(1) [OF ga st1] "6.IH"(2) [OF st1 lt "6.prems"(1) st'] show ?thesis by simp
  qed
qed (auto split: if_splits list.splits)

lemma rmatch_star_cls_Nil: "rmatch (Star (Cls p)) (g, []) = [(g, [])]"
  by (subst rmatch.simps(6)) simp

lemma rmatch_star_cls_Cons:
  "rmatch (Star (Cls p)) (g, c # cs) =
     (if p c then rmatch (Star (Cls p)) (g, cs) else []) @ [(g, c # cs)]"
  by (subst rmatch.simps(6)) simp

lemma rmatch_star_cls:
  "st' \<in> set (rmatch (Star (Cls p)) (g, s)) \<Longrightarrow>
   fst st' = g \<and> (\<exists>u. s = u @ snd st' \<and> list_all p u)"
proof (induction s)
  case Nil
  then show ?case by (simp add: rmatch_star_cls_Nil)
next
  case (Cons c cs)
  show ?case
  proof (cases "st' = (g, c # cs)")
    case True
    then show ?thesis by simp
  next
    case False
    with Cons.prems have pc: "p c" and "st' \<in> set (rmatch (Star (Cls p)) (g, cs))"
      by (auto simp: rmatch_star_cls_Cons split: if_splits)
    with Cons.IH obtain u where "fst st' = g" "cs = u @ snd st'" "list_all p u" by blast
    with pc have "c # cs = (c # u) @ snd st' \<and> list_all p (c # u)" by simp
    with \<open>fst st' = g\<close> show ?thesis by blast
  qed
qed

lemma rmatch_digits_group:
  assumes "st' \<in> set (rmatch digits_group (g, s))"
  shows "digits_cap (fst st')"
proof -
  from assms obtain st1 where
    st1: "st1 \<in> set (rmatch (Plus (Cls isdigit)) (g, s))" and
    cap: "fst st' = Some (take (length s - length (snd st1)) s)"
    by (auto simp: digits_group_def)
  from st1 obtain c cs where s: "s = c # cs" and c: "isdigit c" and
    "st1 \<in> set (rmatch (Star (Cls isdigit)) (g, cs))"
    by (auto simp: Plus_def split: list.splits if_splits)
  then obtain u where u: "cs = u @ snd st1" "list_all isdigit u"
    using rmatch_star_cls by blast
  with s have "take (length s - length (snd st1)) s = c # u" by simp
  with cap c u show ?thesis by (simp add: digits_cap_def)
qed

lemma rmatch_Seq_iff:
  "st' \<in> set (rmatch (Seq a b) st) \<longleftrightarrow> (\<exists>st1\<in>set (rmatch a st). st' \<in> set (rmatch b st1))"
  by auto

lemma rmatch_group_then:
  assumes "groupless b" and "st' \<in> set (rmatch (Seq digits_group b) st)"
  shows "digits_cap (fst st')"
proof -
  from assms(2) obtain st1 where
    "st1 \<in> set (rmatch digits_group st)" "st' \<in> set (rmatch b st1)"
    unfolding rmatch_Seq_iff by blast
  then show ?thesis
    using rmatch_digits_group [of st1 "fst st" "snd st"] rmatch_groupless [OF assms(1), of st' st1]
    by simp
qed

lemma rmatch_then_group:
  assumes "st' \<in> set (rmatch (Seq a (Seq c r)) st)"
    and "\<And>st2 st1. st2 \<in> set (rmatch r st1) \<Longrightarrow> digits_cap (fst st2)"
  shows "digits_cap (fst st')"
  using assms unfolding rmatch_Seq_iff by blast

lemma pattern1_cap: "m \<in> set (rmatch pattern1 st) \<Longrightarrow> digits_cap (fst m)"
  unfolding pattern1_def cat_def foldr.simps o_apply
  by (erule rmatch_group_then [rotated]) (simp add: Plus_def)

lemma pattern3_cap: "m \<in> set (rmatch pattern3 st) \<Longrightarrow> digits_cap (fst m)"
  unfolding pattern3_def cat_def foldr.simps o_apply
  by (erule rmatch_group_then [rotated]) (simp add: Plus_def)

lemma pattern2_cap: "m \<in> set (rmatch pattern2 st) \<Longrightarrow> digits_cap (fst m)"
  unfolding pattern2_def cat_def foldr.simps o_apply
  by (erule rmatch_then_group, erule rmatch_group_then [rotated]) (simp add: Plus_def)

lemma re_search_Some:
  "re_search r s = Some g \<Longrightarrow> \<exists>st. \<exists>m\<in>set (rmatch r st). g = fst m"
proof (induction s)
  case Nil
  then obtain m ms where "rmatch r (None, []) = m # ms" "g = fst m"
    by (auto split: list.splits)
  then have "m \<in> set (rmatch r (None, [])) \<and> g = fst m" by simp
  then show ?case by blast
next
  case (Cons c cs)
  show ?case
  proof (cases "rmatch r (None, c # cs)")
    case Nil
    with Cons show ?thesis by simp
  next
    case (Cons m ms)
    with Cons.prems have "m \<in> set (rmatch r (None, c # cs)) \<and> g = fst m" by simp
    then show ?thesis by blast
  qed
qed

lemma patterns_cap:
  assumes "pattern \<in> set patterns" and "re_search pattern s = Some g"
  shows "digits_cap g"
proof -
  from re_search_Some [OF assms(2)] obtain st m where
    m: "m \<in> set (rmatch pattern st)" "g = fst m" by blast
  from assms(1) have "pattern = pattern1 \<or> pattern = pattern2 \<or> pattern = pattern3"
    by (simp add: patterns_def)
  with m show ?thesis using pattern1_cap pattern2_cap pattern3_cap by blast
qed

lemma digit_val_nonneg: "isdigit c \<Longrightarrow> 0 \<le> digit_val c"
  by (simp add: isdigit_def digit_val_def Let_def)

lemma foldl_digits_nonneg:
  "list_all isdigit u \<Longrightarrow> 0 \<le> acc \<Longrightarrow> 0 \<le> foldl (\<lambda>acc c. 10 * acc + digit_val c) acc u"
  by (induction u arbitrary: acc) (simp_all add: digit_val_nonneg)

lemma decimal_value_nonneg: "list_all isdigit u \<Longrightarrow> 0 \<le> decimal_value u"
  by (simp add: decimal_value_def foldl_digits_nonneg)

lemma int_group1_digits:
  "digits_cap g \<Longrightarrow>
   \<exists>ds. g = Some ds \<and> ds \<noteq> [] \<and> list_all isdigit ds \<and>
     (length ds \<le> INT_MAX_STR_DIGITS \<longrightarrow> int_group1 g = Inr (decimal_value ds)) \<and>
     (INT_MAX_STR_DIGITS < length ds \<longrightarrow> int_group1 g = Inl ValueError)"
  by (auto simp: digits_cap_def int_group1_def py_int_def split: option.splits)

text \<open>The greedy match comes first: \<open>\d+\<close> takes all the digits there are.\<close>

lemma rmatch_star_cls_greedy:
  assumes "list_all p ds" and "ts = [] \<or> \<not> p (hd ts)"
  shows "\<exists>rest. rmatch (Star (Cls p)) (g, ds @ ts) = (g, ts) # rest"
  using assms(1)
proof (induction ds)
  case Nil
  show ?case
  proof (cases ts)
    case Nil
    then show ?thesis by (simp add: rmatch_star_cls_Nil)
  next
    case (Cons t ts')
    with assms(2) show ?thesis by (simp add: rmatch_star_cls_Cons)
  qed
next
  case (Cons c cs)
  then obtain rest where "rmatch (Star (Cls p)) (g, cs @ ts) = (g, ts) # rest" by auto
  with Cons.prems show ?case by (simp add: rmatch_star_cls_Cons)
qed

lemma rmatch_digits_group_greedy:
  assumes "ds \<noteq> []" and "list_all isdigit ds" and "ts = [] \<or> \<not> isdigit (hd ts)"
  shows "\<exists>rest. rmatch digits_group (g, ds @ ts) = (Some ds, ts) # rest"
proof -
  from assms(1,2) obtain c cs where ds: "ds = c # cs" and c: "isdigit c"
    and cs: "list_all isdigit cs" by (cases ds) auto
  from rmatch_star_cls_greedy [OF cs assms(3)] obtain rest where
    "rmatch (Star (Cls isdigit)) (g, cs @ ts) = (g, ts) # rest" by blast
  with c show ?thesis by (simp add: ds digits_group_def Plus_def)
qed

lemma cat_Cons: "cat (r # rs) = Seq r (cat rs)"
  by (simp add: cat_def)

lemma pattern1_after_digits:
  "rmatch (cat [Opt (Lit ''+''), Star (Cls isspace), Lit ''year'', Opt (Lit ''s''),
                Star (Cls isspace), Opt (cat [Lit ''of'', Star (Cls isspace)]),
                Lit ''experience''])
          (g, '' years experience'') \<noteq> []"
proof -
  have sp: "isspace CHR '' ''" "\<not> isspace CHR ''y''" "\<not> isspace CHR ''e''"
    by code_simp+
  show ?thesis
    by (simp add: cat_def rmatch_star_cls_Cons rmatch_star_cls_Nil sp)
qed

lemma pattern1_on_digits:
  assumes "ds \<noteq> []" and "list_all isdigit ds"
  shows "re_search pattern1 (ds @ '' years experience'') = Some (Some ds)"
proof -
  let ?tail = "'' years experience''"
  let ?after = "cat [Opt (Lit ''+''), Star (Cls isspace), Lit ''year'', Opt (Lit ''s''),
                     Star (Cls isspace), Opt (cat [Lit ''of'', Star (Cls isspace)]),
                     Lit ''experience'']"
  have "\<not> isdigit CHR '' ''" by code_simp
  then have "?tail = [] \<or> \<not> isdigit (hd ?tail)" by simp
  from rmatch_digits_group_greedy [OF assms this] obtain rest where
    dg: "rmatch digits_group (None, ds @ ?tail) = (Some ds, ?tail) # rest" by blast
  obtain m ms where m: "rmatch ?after (Some ds, ?tail) = m # ms"
    using pattern1_after_digits [of "Some ds"] by (cases "rmatch ?after (Some ds, ?tail)") auto
  have "groupless ?after" by (simp add: cat_def)
  from rmatch_groupless [OF this, of m "(Some ds, ?tail)"] m have fm: "fst m = Some ds" by simp
  have p: "pattern1 = Seq digits_group ?after"
    unfolding pattern1_def by (rule cat_Cons)
  have "rmatch pattern1 (None, ds @ ?tail) = m # (ms @ concat (map (rmatch ?after) rest))"
    unfolding p by (simp add: dg m)
  moreover from assms(1) obtain c cs where "ds @ ?tail = c # cs" by (cases ds) auto
  ultimately show ?thesis using fm by simp
qed

subsection \<open>A run of the example\<close>

lemma example_query: "normalize [model example_engine example_resume] = Inr [[3 / 5, 4 / 5]]"
proof -
  have "example_model example_resume = [3, 4]" by code_simp
  then show ?thesis
    by (simp add: example_engine_def normalize_def normalize_row_def l2_norm_def)
qed

lemma example_not_blank: "str_strip example_resume \<noteq> []"
  by code_simp

lemma example_run:
  "recommend example_engine example_resume 5 = (example_trace, Inr example_results)"
proof -
  have c: "index_search (index example_engine) [[3 / 5, 4 / 5]] 5 = Inr [example_hits]"
    by code_simp
  have d: "recommend_loop example_engine example_resume 1 example_hits = Inr example_results"
    by code_simp
  show ?thesis
    by (simp add: recommend_def example_not_blank example_query c d example_trace_def)
qed

subsection \<open>Errors of \<open>recommend\<close>\<close>

lemma make_result_error: "make_result resume_text rnk row score = Inl e \<Longrightarrow> e = ValueError"
  by (auto simp: make_result_def Let_def float_truediv_def truediv_def
      split: option.splits if_splits)

lemma iloc_error: "iloc df i = Inl e \<Longrightarrow> e = IndexError"
  by (auto simp: iloc_def Let_def split: if_splits)

lemma recommend_loop_error:
  "recommend_loop self resume_text rnk hits = Inl e \<Longrightarrow> e = IndexError \<or> e = ValueError"
proof (induction hits arbitrary: rnk)
  case Nil
  then show ?case by simp
next
  case (Cons h hits)
  obtain idx score where h: "h = (idx, score)" by (cases h)
  with Cons show ?case
    by (auto split: if_splits sum.splits dest: make_result_error iloc_error)
qed

lemma recommend_error:
  assumes "snd (recommend self resume_text top_k) = Inl e"
  shows "e = IndexError \<or> e = ValueError \<or> e = AssertionError"
proof -
  have n: "normalize X = Inl e' \<Longrightarrow> e' = ValueError" for X e'
    by (auto simp: normalize_def split: list.splits if_splits)
  have s: "index_search idx X k = Inl e' \<Longrightarrow> e' = AssertionError" for idx X k e'
    by (auto simp: index_search_def split: if_splits)
  from assms show ?thesis
    by (auto simp: recommend_def Let_def split: if_splits sum.splits list.splits
        dest: n s recommend_loop_error)
qed

subsection \<open>Skills\<close>

lemma set_extract_skills:
  "set (extract_skills_from_text text) =
     {skill \<in> set COMMON_SKILLS. sublist skill (str_lower text)}"
  by (simp add: extract_skills_from_text_def Let_def str_contains_sublist)

lemma distinct_extract_skills: "distinct (extract_skills_from_text text)"
  by (simp add: extract_skills_from_text_def Let_def)

lemma nan_not_a_skill: "''nan'' \<notin> set COMMON_SKILLS" "[] \<notin> set COMMON_SKILLS"
  by (simp_all add: COMMON_SKILLS_def)

lemma job_skills_of_missing:
  "job_skills_of None = [''nan'']" "job_skills_of (Some []) = [[]]"
  by code_simp+

lemma recommend_made:
  assumes "recommend self resume_text top_k = (trace, Inr results)" and "r \<in> set results"
  obtains rnk row score where "make_result resume_text rnk row score = Inr r"
proof -
  from assms obtain hits where "recommend_loop self resume_text 1 hits = Inr results"
    by (auto simp: recommend_def Let_def split: if_splits sum.splits list.splits)
  from recommend_loop_made [OF this assms(2)] show ?thesis using that by blast
qed

lemma matched_le_job_skills:
  assumes "distinct js"
  shows "length (filter (\<lambda>s. s \<in> set js) (remdups xs)) \<le> length js"
proof -
  let ?m = "filter (\<lambda>s. s \<in> set js) (remdups xs)"
  have "distinct ?m" by simp
  then have "length ?m = card (set ?m)" by (rule distinct_card [symmetric])
  also have "\<dots> \<le> card (set js)" by (rule card_mono) auto
  also have "\<dots> = length js" using assms by (simp add: distinct_card)
  finally show ?thesis .
qed

lemma py_round1_percent: "0 \<le> x \<Longrightarrow> x \<le> 100 \<Longrightarrow> 0 \<le> py_round1 x \<and> py_round1 x \<le> 100"
  using py_round1_mono [of 0 x] py_round1_mono [of x 100]
  by (simp add: py_round1_0 py_round1_100)

lemma combine_text_as_template: "combine_text r = format_template TEMPLATE (source_field r)"
  by (simp add: combine_text_def TEMPLATE_def source_field_def)

subsection \<open>File extraction\<close>

lemma read_pages_all:
  "PageError \<notin> set doc \<Longrightarrow> read_pages doc acc = acc @ concat (map page_text doc)"
  by (induction doc acc rule: read_pages.induct) simp_all

text \<open>
  A PDF that fails at its second page gives the text of its first page, where the
  extractor of text files gives the empty string when reading fails.
\<close>

lemma pdf_page_failure_keeps_text:
  "extract_resume_text example_fs ''damaged.pdf'' = ''Python developer''"
  by code_simp

section \<open>The claims\<close>

text \<open>
  C1, as amended. Whenever \<open>recommend\<close> returns a list for a text that is not blank, or
  for any text with \<open>top_k \<ge> 0\<close>, the list has at most \<open>top_k\<close> entries, the ranks are
  1, 2, 3, ... (so strictly increasing from 1), the match scores do not increase down
  the list, and the match scores are \<open>round(score * 100, 1)\<close> of the scores of the hits
  the index search returned, each the inner product of the query with the stored vector.
\<close>

theorem recommend_ranked:
  assumes "recommend self resume_text top_k = (trace, Inr results)"
    and "str_strip resume_text \<noteq> [] \<or> 0 \<le> top_k"
  shows "int (length results) \<le> top_k \<and>
         map rank results = map int [1..<Suc (length results)] \<and>
         sorted_wrt (<) (map rank results) \<and>
         sorted_wrt (\<lambda>a b. b \<le> a) (map match_score results) \<and>
         (str_strip resume_text \<noteq> [] \<longrightarrow>
            (\<exists>hits. index_search (index self) [normalize_row (model self resume_text)] top_k
                       = Inr [hits] \<and>
                     map match_score results =
                       map (\<lambda>h. py_round1 (snd h * 100)) (filter (\<lambda>h. fst h \<noteq> - 1) hits) \<and>
                     (\<forall>h\<in>set hits. fst h \<noteq> - 1 \<longrightarrow>
                        snd h = inner_product (normalize_row (model self resume_text))
                                  (xb (index self) ! nat (fst h)))))"
proof (cases "str_strip resume_text = []")
  case True
  with assms have "results = []" "0 \<le> top_k" by (auto simp: recommend_def)
  with True show ?thesis by simp
next
  case False
  let ?q = "normalize_row (model self resume_text)"
  from recommend_searched [OF assms(1) False] obtain hits where
    k: "0 < top_k" and
    s: "index_search (index self) [?q] top_k = Inr [hits]" and
    h: "hits = search_one (index self) (nat top_k) ?q" and
    l: "recommend_loop self resume_text 1 hits = Inr results"
    by blast
  obtain best where
    b1: "hits = best @ replicate (nat top_k - length best) (- 1, FLT_LOWEST)" and
    b2: "length best \<le> nat top_k" and
    b3: "\<forall>h\<in>set best. 0 \<le> fst h \<and> nat (fst h) < length (xb (index self)) \<and>
           snd h = inner_product ?q (xb (index self) ! nat (fst h))" and
    b4: "sorted (map (\<lambda>h. - snd h) best)"
    unfolding h by (rule search_one_shape)
  from b3 have valid: "\<forall>h\<in>set best. fst h \<noteq> - 1" by auto
  from l have l': "recommend_loop self resume_text 1 best = Inr results"
    unfolding b1 by (simp add: recommend_loop_padding)
  from recommend_loop_valid [OF valid l'] have
    rk: "map rank results = map (\<lambda>i. 1 + int i) [0..<length best]" and
    ms: "map match_score results = map (\<lambda>h. py_round1 (snd h * 100)) best"
    by auto
  from ms have len: "length results = length best"
    using length_map [of match_score results] by simp
  have c1: "int (length results) \<le> top_k" using len b2 k by linarith
  have "map (\<lambda>i. 1 + int i) [0..<length best] = map int [1..<Suc (length best)]"
    by (simp add: map_Suc_upt [symmetric] del: upt_Suc)
  with rk len have c2: "map rank results = map int [1..<Suc (length results)]" by simp
  have c3: "sorted_wrt (<) (map rank results)"
    unfolding c2 by (simp add: sorted_wrt_map del: upt_Suc)
  have c4: "sorted_wrt (\<lambda>a b. b \<le> a) (map match_score results)"
    unfolding ms using b4 by (rule scores_descending)
  have f: "filter (\<lambda>h. fst h \<noteq> - 1) hits = best"
    unfolding b1 using valid by (rule filter_valid_hits)
  have c5: "\<forall>h\<in>set hits. fst h \<noteq> - 1 \<longrightarrow>
      snd h = inner_product ?q (xb (index self) ! nat (fst h))"
    unfolding b1 using b3 by auto
  from c1 c2 c3 c4 s ms f c5 show ?thesis by auto
qed

theorem recommend_ranked_witness:
  "recommend example_engine example_resume 5 = (example_trace, Inr example_results) \<and>
   str_strip example_resume \<noteq> [] \<and>
   int (length example_results) \<le> 5 \<and>
   map rank example_results = [1, 2, 3] \<and>
   map match_score example_results = [100, 96, 96] \<and>
   sorted_wrt (\<lambda>a b. b \<le> a) (map match_score example_results)"
proof -
  have p: "str_strip example_resume \<noteq> [] \<or> (0::int) \<le> 5" by simp
  have "map rank example_results = [1, 2, 3]"
    "map match_score example_results = [100, 96, 96]"
    by (simp_all add: example_results_def)
  with recommend_ranked [OF example_run p] example_run example_not_blank
  show ?thesis by simp
qed

text \<open>
  C1, as stated, fails for a blank text that is not empty and a negative \<open>top_k\<close>: the
  guard returns the empty list, which has more than \<open>-1\<close> entries.
\<close>

theorem recommend_at_most_top_k_counterexample:
  "'' '' \<noteq> [] \<and> snd (recommend example_engine '' '' (- 1)) = Inr [] \<and>
   \<not> int (length ([] :: result list)) \<le> - 1"
proof -
  have "list_all isspace '' ''" by code_simp
  then have "str_strip '' '' = []" by (simp only: str_strip_blank)
  then show ?thesis by (simp add: recommend_def)
qed

text \<open>
  C2. For every result of \<open>recommend\<close>: the job skill set is the set of the
  comma-separated parts of the printed skills cell, stripped and lowercased;
  \<open>matched_skills\<close> is the intersection of the resume skills with it;
  \<open>skill_match_pct\<close> is \<open>round(len(matched) / max(len(job_skills), 1) * 100, 1)\<close> in
  floating-point arithmetic (23 of 80 skills give 28.7), the division does not fail, the
  percentage lies between 0 and 100, is 0 when nothing matches, and is 0 for a job whose
  skills cell is missing or empty.
\<close>

theorem skill_match_pct_formula:
  assumes "recommend self resume_text top_k = (trace, Inr results)" and "r \<in> set results"
  shows "set (job_skills_of (skills r)) =
           (\<lambda>s. str_lower (str_strip s)) ` set (str_split CHR '','' (str_of_cell (skills r))) \<and>
         distinct (job_skills_of (skills r)) \<and>
         set (matched_skills r) =
           set (extract_skills_from_text resume_text) \<inter> set (job_skills_of (skills r)) \<and>
         distinct (matched_skills r) \<and>
         float_truediv (real (length (matched_skills r)))
                       (real (max (length (job_skills_of (skills r))) 1)) =
           Inr (fl (real (length (matched_skills r)) /
                    real (max (length (job_skills_of (skills r))) 1))) \<and>
         skill_match_pct r =
           py_round1 (float_mul (fl (real (length (matched_skills r)) /
                                     real (max (length (job_skills_of (skills r))) 1))) 100) \<and>
         0 \<le> skill_match_pct r \<and> skill_match_pct r \<le> 100 \<and>
         (matched_skills r = [] \<longrightarrow> skill_match_pct r = 0) \<and>
         (skills r = None \<or> skills r = Some [] \<longrightarrow>
            matched_skills r = [] \<and> skill_match_pct r = 0) \<and>
         py_round1 (float_mul (fl (23 / 80)) 100) = 287 / 10"
proof -
  from assms obtain rnk row score where mk: "make_result resume_text rnk row score = Inr r"
    by (rule recommend_made)
  let ?js = "job_skills_of (skills r)"
  note f = make_result_fields [OF mk]
  have sk: "skills row = skills r" using f(3) by simp
  have m: "matched_skills r =
      filter (\<lambda>s. s \<in> set ?js) (remdups (extract_skills_from_text resume_text))"
    using f(4) sk by simp
  have c1: "set ?js =
      (\<lambda>s. str_lower (str_strip s)) ` set (str_split CHR '','' (str_of_cell (skills r)))"
    by (simp add: job_skills_of_def)
  have c2: "distinct ?js" by (simp add: job_skills_of_def)
  have c3: "set (matched_skills r) = set (extract_skills_from_text resume_text) \<inter> set ?js"
    unfolding m by auto
  have c4: "distinct (matched_skills r)" unfolding m by simp
  define q where "q = real (length (matched_skills r)) / real (max (length ?js) 1)"
  have c5: "float_truediv (real (length (matched_skills r))) (real (max (length ?js) 1)) =
      Inr (fl q)"
    using f(5) sk by (simp add: q_def)
  have c6: "skill_match_pct r = py_round1 (float_mul (fl q) 100)"
    using f(6) sk by (simp add: q_def)
  have le: "length (matched_skills r) \<le> length ?js"
    unfolding m using c2 by (rule matched_le_job_skills)
  have pos: "0 < length ?js" using job_skills_of_not_Nil [of "skills r"] by simp
  have q1: "0 \<le> q" "q \<le> 1" using le pos by (simp_all add: q_def)
  then have q01: "0 \<le> q" "q \<le> of_int 1" "q < 2 ^ 53" by simp_all
  have fq: "0 \<le> fl q" "fl q \<le> 1"
    using fl_nonneg [OF q01(1)] fl_le_of_int [OF q01] by simp_all
  then have y: "0 \<le> fl q * 100" "fl q * 100 \<le> of_int 100" "fl q * 100 < 2 ^ 53"
    by simp_all
  have "0 \<le> float_mul (fl q) 100 \<and> float_mul (fl q) 100 \<le> 100"
    unfolding float_mul_def using fl_nonneg [OF y(1)] fl_le_of_int [OF y] by simp
  then have c7: "0 \<le> skill_match_pct r \<and> skill_match_pct r \<le> 100"
    unfolding c6 using py_round1_percent by blast
  have c8: "matched_skills r = [] \<longrightarrow> skill_match_pct r = 0"
    unfolding c6 q_def by (simp add: float_mul_def fl_0 py_round1_0)
  have "matched_skills r = []" if "skills r = None \<or> skills r = Some []"
  proof -
    from that have "?js = [''nan''] \<or> ?js = [[]]"
      using job_skills_of_missing by auto
    then have "set (extract_skills_from_text resume_text) \<inter> set ?js = {}"
      using nan_not_a_skill by (auto simp: set_extract_skills)
    with c3 show ?thesis by simp
  qed
  with c8 have c9: "skills r = None \<or> skills r = Some [] \<longrightarrow>
      matched_skills r = [] \<and> skill_match_pct r = 0" by blast
  have c10: "py_round1 (float_mul (fl (23 / 80)) 100) = 287 / 10" by code_simp
  from c5 c6 have c5': "float_truediv (real (length (matched_skills r)))
        (real (max (length ?js) 1)) =
      Inr (fl (real (length (matched_skills r)) / real (max (length ?js) 1)))"
    and c6': "skill_match_pct r =
      py_round1 (float_mul (fl (real (length (matched_skills r)) /
                                real (max (length ?js) 1))) 100)"
    by (simp_all add: q_def)
  from c1 c2 c3 c4 c5' c6' c7 c8 c9 c10 show ?thesis by blast
qed

theorem skill_match_pct_formula_witness:
  "recommend example_engine example_resume 5 = (example_trace, Inr example_results) \<and>
   example_results ! 0 \<in> set example_results \<and>
   example_results ! 2 \<in> set example_results \<and>
   matched_skills (example_results ! 0) = [''python'', ''docker''] \<and>
   job_skills_of (skills (example_results ! 0)) = [''python'', ''sql'', ''docker''] \<and>
   skill_match_pct (example_results ! 0) = py_round1 (float_mul (fl (2 / 3)) 100) \<and>
   skill_match_pct (example_results ! 0) = 667 / 10 \<and>
   skills (example_results ! 2) = None \<and>
   skill_match_pct (example_results ! 2) = 0"
proof -
  have m0: "example_results ! 0 \<in> set example_results"
    and m2: "example_results ! 2 \<in> set example_results"
    by (simp_all add: example_results_def)
  have a: "matched_skills (example_results ! 0) = [''python'', ''docker'']"
    "skills (example_results ! 2) = None"
    "skill_match_pct (example_results ! 0) = 667 / 10"
    by (simp_all add: example_results_def)
  have b: "job_skills_of (skills (example_results ! 0)) = [''python'', ''sql'', ''docker'']"
    by code_simp
  have "skill_match_pct (example_results ! 0) =
      py_round1 (float_mul (fl (real (length (matched_skills (example_results ! 0))) /
        real (max (length (job_skills_of (skills (example_results ! 0)))) 1))) 100)"
    using skill_match_pct_formula [OF example_run m0] by blast
  then have c: "skill_match_pct (example_results ! 0) = py_round1 (float_mul (fl (2 / 3)) 100)"
    unfolding a b by simp
  have d: "skill_match_pct (example_results ! 2) = 0"
    using skill_match_pct_formula [OF example_run m2] a(2) by blast
  from example_run m0 m2 a b c d show ?thesis by blast
qed

text \<open>
  C3. For a text of whitespace only (the empty text included; whitespace is what
  \<open>str.isspace\<close> accepts) and any \<open>top_k\<close>, \<open>recommend\<close> returns the empty list, raises
  nothing and calls neither the encoder nor the index: the trace of calls is empty.
\<close>

theorem recommend_blank_text:
  assumes "list_all isspace resume_text"
  shows "recommend self resume_text top_k = ([], Inr []) \<and>
         recommend_from_text_input self resume_text top_k = ([], Inr [])"
  using assms by (simp add: recommend_def recommend_from_text_input_def str_strip_blank)

theorem recommend_blank_text_witness:
  "list_all isspace [CHR '' '', CHR 0x09, CHR 0x0A, CHR 0x1F, CHR 0x85, CHR 0xA0] \<and>
   recommend example_engine [CHR '' '', CHR 0x09, CHR 0x0A, CHR 0x1F, CHR 0x85, CHR 0xA0] 0 =
     ([], Inr []) \<and>
   recommend example_engine [] 3 = ([], Inr [])"
proof -
  have a: "list_all isspace [CHR '' '', CHR 0x09, CHR 0x0A, CHR 0x1F, CHR 0x85, CHR 0xA0]"
    by code_simp
  have b: "list_all isspace []" by simp
  from a recommend_blank_text [OF a, of example_engine 0]
    recommend_blank_text [OF b, of example_engine 3]
  show ?thesis by blast
qed

text \<open>
  C4, as amended. \<open>extract_experience_years\<close> tries the three patterns in the order of
  the source on the lowercased text and returns \<open>int\<close> of group 1 of the first pattern
  that matches, and 0 when none matches. Group 1 of a match is always a non-empty string
  of digits, and when it has at most 4300 digits the result is its decimal value, which
  is not negative. The examples run each pattern, their order, the optional parts and a
  no-break space; on the text of the specification the result is 3.
\<close>

theorem extract_experience_years_first_match:
  "(\<forall>g. re_search pattern1 (str_lower text) = Some g \<longrightarrow>
      extract_experience_years text = int_group1 g) \<and>
   (\<forall>g. re_search pattern1 (str_lower text) = None \<and>
        re_search pattern2 (str_lower text) = Some g \<longrightarrow>
      extract_experience_years text = int_group1 g) \<and>
   (\<forall>g. re_search pattern1 (str_lower text) = None \<and>
        re_search pattern2 (str_lower text) = None \<and>
        re_search pattern3 (str_lower text) = Some g \<longrightarrow>
      extract_experience_years text = int_group1 g) \<and>
   (re_search pattern1 (str_lower text) = None \<and>
    re_search pattern2 (str_lower text) = None \<and>
    re_search pattern3 (str_lower text) = None \<longrightarrow>
      extract_experience_years text = Inr 0) \<and>
   (\<forall>pattern g. pattern \<in> set [pattern1, pattern2, pattern3] \<and>
        re_search pattern (str_lower text) = Some g \<longrightarrow>
      (\<exists>digits. g = Some digits \<and> digits \<noteq> [] \<and> list_all isdigit digits \<and>
         (length digits \<le> 4300 \<longrightarrow>
            int_group1 g = Inr (decimal_value digits) \<and> 0 \<le> decimal_value digits))) \<and>
   extract_experience_years ''I have 3 years experience with python and docker'' = Inr 3 \<and>
   extract_experience_years ''10+ years of experience'' = Inr 10 \<and>
   extract_experience_years ''Experience: 12+ Years'' = Inr 12 \<and>
   extract_experience_years ''5 yrs of work experience'' = Inr 5 \<and>
   extract_experience_years ''007 yr experience'' = Inr 7 \<and>
   extract_experience_years ''experience: 7 years. 3 years experience'' = Inr 3 \<and>
   extract_experience_years (CHR ''5'' # CHR 0xA0 # ''years experience'') = Inr 5 \<and>
   extract_experience_years ''no experience stated'' = Inr 0"
proof -
  have first: "\<forall>g. re_search pattern1 (str_lower text) = Some g \<longrightarrow>
      extract_experience_years text = int_group1 g"
    by (simp add: extract_experience_years_def patterns_def)
  have second: "\<forall>g. re_search pattern1 (str_lower text) = None \<and>
        re_search pattern2 (str_lower text) = Some g \<longrightarrow>
      extract_experience_years text = int_group1 g"
    by (simp add: extract_experience_years_def patterns_def)
  have third: "\<forall>g. re_search pattern1 (str_lower text) = None \<and>
        re_search pattern2 (str_lower text) = None \<and>
        re_search pattern3 (str_lower text) = Some g \<longrightarrow>
      extract_experience_years text = int_group1 g"
    by (simp add: extract_experience_years_def patterns_def)
  have none: "re_search pattern1 (str_lower text) = None \<and>
    re_search pattern2 (str_lower text) = None \<and>
    re_search pattern3 (str_lower text) = None \<longrightarrow>
      extract_experience_years text = Inr 0"
    by (simp add: extract_experience_years_def patterns_def)
  have digits: "\<exists>digits. g = Some digits \<and> digits \<noteq> [] \<and> list_all isdigit digits \<and>
         (length digits \<le> 4300 \<longrightarrow>
            int_group1 g = Inr (decimal_value digits) \<and> 0 \<le> decimal_value digits)"
    if "pattern \<in> set [pattern1, pattern2, pattern3]"
      and "re_search pattern (str_lower text) = Some g" for pattern g
  proof -
    from that have "digits_cap g"
      using patterns_cap [of pattern "str_lower text" g] by (simp add: patterns_def)
    from int_group1_digits [OF this] obtain ds where "g = Some ds" "ds \<noteq> []"
      "list_all isdigit ds"
      "length ds \<le> INT_MAX_STR_DIGITS \<longrightarrow> int_group1 g = Inr (decimal_value ds)"
      by blast
    then show ?thesis
      using decimal_value_nonneg [of ds] by (auto simp: INT_MAX_STR_DIGITS_def)
  qed
  have e1: "extract_experience_years ''I have 3 years experience with python and docker'' = Inr 3"
    by code_simp
  have e2: "extract_experience_years ''10+ years of experience'' = Inr 10" by code_simp
  have e3: "extract_experience_years ''Experience: 12+ Years'' = Inr 12" by code_simp
  have e4: "extract_experience_years ''5 yrs of work experience'' = Inr 5" by code_simp
  have e5: "extract_experience_years ''007 yr experience'' = Inr 7" by code_simp
  have e6: "extract_experience_years ''experience: 7 years. 3 years experience'' = Inr 3"
    by code_simp
  have e7: "extract_experience_years (CHR ''5'' # CHR 0xA0 # ''years experience'') = Inr 5"
    by code_simp
  have e8: "extract_experience_years ''no experience stated'' = Inr 0" by code_simp
  from first second third none digits e1 e2 e3 e4 e5 e6 e7 e8 show ?thesis by blast
qed

theorem extract_experience_years_witness:
  "re_search pattern1 (str_lower ''Experience: 12+ Years'') = None \<and>
   re_search pattern2 (str_lower ''Experience: 12+ Years'') = Some (Some ''12'') \<and>
   pattern2 \<in> set [pattern1, pattern2, pattern3] \<and>
   length ''12'' \<le> 4300 \<and>
   int_group1 (Some ''12'') = Inr (decimal_value ''12'') \<and>
   decimal_value ''12'' = 12 \<and>
   extract_experience_years ''Experience: 12+ Years'' = Inr 12"
proof -
  have a: "re_search pattern1 (str_lower ''Experience: 12+ Years'') = None" by code_simp
  have b: "re_search pattern2 (str_lower ''Experience: 12+ Years'') = Some (Some ''12'')"
    by code_simp
  have c: "decimal_value ''12'' = 12" by code_simp
  have m: "pattern2 \<in> set [pattern1, pattern2, pattern3]" by simp
  have l: "length ''12'' \<le> 4300" by simp
  note t = extract_experience_years_first_match [of "''Experience: 12+ Years''"]
  from t a b have d: "extract_experience_years ''Experience: 12+ Years'' =
      int_group1 (Some ''12'')" by blast
  from t m b obtain digits where
    "Some ''12'' = Some digits"
    "length digits \<le> 4300 \<longrightarrow> int_group1 (Some ''12'') = Inr (decimal_value digits)"
    by blast
  with l have e: "int_group1 (Some ''12'') = Inr (decimal_value ''12'')" by auto
  from a b m l e c d show ?thesis by simp
qed

text \<open>
  C4, as stated, fails on a number of 4301 digits before \<open>years experience\<close>: the first
  pattern matches and captures the digits, and \<open>int\<close> refuses them with \<open>ValueError\<close>
  instead of returning the integer.
\<close>

theorem extract_experience_years_counterexample:
  "re_search pattern1 (str_lower (replicate 4301 CHR ''9'' @ '' years experience'')) =
     Some (Some (replicate 4301 CHR ''9'')) \<and>
   extract_experience_years (replicate 4301 CHR ''9'' @ '' years experience'') =
     Inl ValueError"
proof -
  let ?ds = "replicate 4301 CHR ''9''"
  have nine: "lower_char CHR ''9'' = CHR ''9''" "isdigit CHR ''9''" by code_simp+
  have tail: "str_lower '' years experience'' = '' years experience''" by code_simp
  have low: "str_lower (?ds @ '' years experience'') = ?ds @ '' years experience''"
    using tail by (simp add: str_lower_def nine)
  have ds: "?ds \<noteq> []" "list_all isdigit ?ds" by (simp_all add: list_all_iff nine)
  have a: "re_search pattern1 (str_lower (?ds @ '' years experience'')) = Some (Some ?ds)"
    unfolding low using ds by (rule pattern1_on_digits)
  have "int_group1 (Some ?ds) = Inl ValueError"
    by (simp add: int_group1_def py_int_def INT_MAX_STR_DIGITS_def)
  with a have "extract_experience_years (?ds @ '' years experience'') = Inl ValueError"
    by (simp add: extract_experience_years_def patterns_def)
  with a show ?thesis by blast
qed

text \<open>
  C5. Two texts that are equal after lowercasing give the same skills; the list has no
  repetition and holds exactly the vocabulary entries that occur as substrings of the
  lowercased text.
\<close>

theorem extract_skills_case_insensitive:
  assumes "str_lower a = str_lower b"
  shows "extract_skills_from_text a = extract_skills_from_text b \<and>
         distinct (extract_skills_from_text a) \<and>
         set (extract_skills_from_text a) \<subseteq> set COMMON_SKILLS \<and>
         set (extract_skills_from_text a) =
           {skill \<in> set COMMON_SKILLS. sublist skill (str_lower a)}"
  using assms
  by (auto simp: set_extract_skills distinct_extract_skills)
     (simp add: extract_skills_from_text_def)

theorem extract_skills_case_insensitive_witness:
  "str_lower ''Python, React'' = str_lower ''PYTHON, react'' \<and>
   extract_skills_from_text ''Python, React'' = extract_skills_from_text ''PYTHON, react'' \<and>
   set (extract_skills_from_text ''PYTHON, react'') = {''python'', ''react'', ''r''}"
proof -
  have a: "str_lower ''Python, React'' = str_lower ''PYTHON, react''" by code_simp
  have b: "extract_skills_from_text ''PYTHON, react'' = [''python'', ''react'', ''r'']"
    by code_simp
  from extract_skills_case_insensitive [OF a]
  have "extract_skills_from_text ''Python, React'' = extract_skills_from_text ''PYTHON, react''"
    by blast
  with a b show ?thesis by simp
qed

text \<open>
  C6. The \<open>combined_text\<close> of every row \<open>load_jobs\<close> returns is the template of the
  specification filled with the four source fields of the row, a missing field as the
  empty string; it depends on these four fields only.
\<close>

theorem combined_text_template:
  "map combined_text (load_jobs df) =
     map (\<lambda>r. format_template TEMPLATE (source_field r)) df \<and>
   (title r = title r' \<and> description r = description r' \<and> skills r = skills r' \<and>
    experience_level r = experience_level r' \<longrightarrow>
      combined_text (add_combined_text r) = combined_text (add_combined_text r')) \<and>
   format_template TEMPLATE (source_field r) =
     fillna (title r) @ ''. '' @ fillna (description r) @ ''. Required skills: '' @
     fillna (skills r) @ ''. Level: '' @ fillna (experience_level r) \<and>
   fillna None = []"
proof -
  have 1: "map combined_text (load_jobs df) =
      map (\<lambda>r. format_template TEMPLATE (source_field r)) df"
    by (simp add: load_jobs_def add_combined_text_def combine_text_as_template)
  have 2: "title r = title r' \<and> description r = description r' \<and> skills r = skills r' \<and>
      experience_level r = experience_level r' \<longrightarrow>
      combined_text (add_combined_text r) = combined_text (add_combined_text r')"
    by (simp add: add_combined_text_def combine_text_def)
  have 3: "format_template TEMPLATE (source_field r) =
      fillna (title r) @ ''. '' @ fillna (description r) @ ''. Required skills: '' @
      fillna (skills r) @ ''. Level: '' @ fillna (experience_level r)"
    unfolding combine_text_as_template [symmetric] by (simp add: combine_text_def)
  have 4: "fillna None = []" by (simp add: fillna_def)
  from 1 2 3 4 show ?thesis by blast
qed

theorem combined_text_template_witness:
  "title (example_rows ! 2) = title ((example_rows ! 2)\<lparr>company := Some ''Umbrella''\<rparr>) \<and>
   combined_text (add_combined_text (example_rows ! 2)) =
     combined_text (add_combined_text ((example_rows ! 2)\<lparr>company := Some ''Umbrella''\<rparr>)) \<and>
   map combined_text (load_jobs example_rows) =
     [''Backend Engineer. Build services. Required skills: python, sql, docker. Level: Mid'',
      ''Systems Developer. Low-level code. Required skills: Rust, Docker. Level: Senior'',
      ''Office Assistant. . Required skills: . Level: Junior'']"
proof -
  let ?r = "example_rows ! 2" and ?r' = "(example_rows ! 2)\<lparr>company := Some ''Umbrella''\<rparr>"
  have a: "title ?r = title ?r' \<and> description ?r = description ?r' \<and> skills ?r = skills ?r' \<and>
      experience_level ?r = experience_level ?r'" by simp
  from combined_text_template [of _ ?r ?r'] a
  have b: "combined_text (add_combined_text ?r) = combined_text (add_combined_text ?r')"
    by blast
  have c: "map combined_text (load_jobs example_rows) =
     [''Backend Engineer. Build services. Required skills: python, sql, docker. Level: Mid'',
      ''Systems Developer. Low-level code. Required skills: Rust, Docker. Level: Senior'',
      ''Office Assistant. . Required skills: . Level: Junior'']"
    by code_simp
  from a b c show ?thesis by blast
qed

text \<open>
  C7. Let \<open>pickle\<close> give back what it was given. After \<open>_build_index\<close> has written the
  cache, \<open>_build_or_load_index\<close> (with any encoder, and whatever the catalog then holds)
  loads it: the index and the embeddings are those that were saved, the disk is left as
  it is, and every search on the loaded index returns what it returns on the saved one.
\<close>

theorem cache_round_trip:
  assumes "\<forall>sv. pickle_loads pk (pickle_dumps pk sv) = Some sv"
    and "build_index pk mdl jobs dk = Inr (built, dk')"
    and "csv_files dk' JOBS_PATH = Some df"
  shows "\<exists>loaded. build_or_load_index pk mdl' dk' = Inr (loaded, dk') \<and>
           index loaded = index built \<and>
           job_embeddings loaded = job_embeddings built \<and>
           jobs_df loaded = load_jobs df \<and>
           (\<forall>X k. index_search (index loaded) X k = index_search (index built) X k)"
proof -
  from assms(2) have
    "bin_files dk' INDEX_PATH =
       Some (pickle_dumps pk \<lparr>saved_index = index built,
                               saved_embeddings = job_embeddings built\<rparr>)"
    by (auto simp: build_index_def Let_def split: sum.splits list.splits)
  with assms(1,3) show ?thesis
    by (simp add: build_or_load_index_def Let_def)
qed

theorem cache_round_trip_witness:
  "build_index example_pickle example_model (load_jobs example_rows) example_disk =
     Inr (example_engine, example_disk_cached) \<and>
   csv_files example_disk_cached JOBS_PATH = Some example_rows \<and>
   (\<exists>loaded. build_or_load_index example_pickle example_model example_disk_cached =
        Inr (loaded, example_disk_cached) \<and>
      index loaded = example_index \<and>
      index_search (index loaded) [[3 / 5, 4 / 5]] 5 = Inr [example_hits])"
proof -
  have rt: "\<forall>sv. pickle_loads example_pickle (pickle_dumps example_pickle sv) = Some sv"
    by (simp add: example_pickle_def)
  have e: "map example_model (map combined_text (load_jobs example_rows)) =
      [[3, 4], [4, 3], [4, 3]]" by code_simp
  have n: "normalize [[3, 4], [4, 3], [4, 3]] = Inr example_embeddings"
    by (simp add: normalize_def normalize_row_def l2_norm_def example_embeddings_def)
  have b: "build_index example_pickle example_model (load_jobs example_rows) example_disk =
      Inr (example_engine, example_disk_cached)"
    unfolding build_index_def Let_def e n
    by (simp add: index_add_def IndexFlatIP_def example_index_def example_embeddings_def
        example_engine_def example_disk_cached_def example_pickle_def numeral_2_eq_2)
  have c: "csv_files example_disk_cached JOBS_PATH = Some example_rows"
    by (simp add: example_disk_cached_def example_disk_def)
  have s: "index_search example_index [[3 / 5, 4 / 5]] 5 = Inr [example_hits]" by code_simp
  from cache_round_trip [OF rt b c, of example_model] obtain loaded where
    "build_or_load_index example_pickle example_model example_disk_cached =
       Inr (loaded, example_disk_cached)"
    "index loaded = index example_engine" by blast
  moreover have "index example_engine = example_index" by (simp add: example_engine_def)
  ultimately show ?thesis using b c s by auto
qed

text \<open>
  C8, as amended. When the lowercased extension of the path is none of \<open>.pdf\<close>, \<open>.txt\<close>
  and \<open>.text\<close>, the extracted text is empty; whenever the extracted text is empty,
  \<open>recommend_from_file\<close> returns the empty list without raising and without calling the
  encoder or the index. A text file that cannot be read and a PDF that cannot be opened
  give the empty string; a text file that is read gives its stripped content, and a PDF
  whose pages are all read gives their stripped text.
\<close>

theorem recommend_from_file_degrades:
  "(str_lower (snd (splitext file_path)) \<notin> set [''.pdf'', ''.txt'', ''.text''] \<longrightarrow>
      extract_resume_text fs file_path = []) \<and>
   (str_lower (snd (splitext file_path)) \<notin> set [''.pdf'', ''.txt'', ''.text''] \<longrightarrow>
      recommend_from_file self fs file_path top_k = ([], Inr [])) \<and>
   (extract_resume_text fs file_path = [] \<longrightarrow>
      recommend_from_file self fs file_path top_k = ([], Inr [])) \<and>
   (str_lower (snd (splitext file_path)) \<in> set [''.txt'', ''.text''] \<and>
    open_read fs file_path = None \<longrightarrow>
      extract_resume_text fs file_path = []) \<and>
   (str_lower (snd (splitext file_path)) = ''.pdf'' \<and> fitz_open fs file_path = None \<longrightarrow>
      extract_resume_text fs file_path = []) \<and>
   (\<forall>content. str_lower (snd (splitext file_path)) \<in> set [''.txt'', ''.text''] \<and>
      open_read fs file_path = Some content \<longrightarrow>
      extract_resume_text fs file_path = str_strip content) \<and>
   (\<forall>doc. str_lower (snd (splitext file_path)) = ''.pdf'' \<and>
      fitz_open fs file_path = Some doc \<and> PageError \<notin> set doc \<longrightarrow>
      extract_resume_text fs file_path = str_strip (concat (map page_text doc)))"
proof -
  have blank: "str_strip [] = []" by (simp add: str_strip_def)
  have 1: "str_lower (snd (splitext file_path)) \<notin> set [''.pdf'', ''.txt'', ''.text''] \<longrightarrow>
      extract_resume_text fs file_path = []"
    by (simp add: extract_resume_text_def Let_def)
  have 2: "extract_resume_text fs file_path = [] \<longrightarrow>
      recommend_from_file self fs file_path top_k = ([], Inr [])"
    by (simp add: recommend_from_file_def Let_def)
  have 3: "str_lower (snd (splitext file_path)) \<in> set [''.txt'', ''.text''] \<and>
      open_read fs file_path = None \<longrightarrow> extract_resume_text fs file_path = []"
    by (auto simp: extract_resume_text_def Let_def extract_text_from_txt_def)
  have 4: "str_lower (snd (splitext file_path)) = ''.pdf'' \<and> fitz_open fs file_path = None \<longrightarrow>
      extract_resume_text fs file_path = []"
    by (simp add: extract_resume_text_def Let_def extract_text_from_pdf_def blank)
  have 5: "\<forall>content. str_lower (snd (splitext file_path)) \<in> set [''.txt'', ''.text''] \<and>
      open_read fs file_path = Some content \<longrightarrow>
      extract_resume_text fs file_path = str_strip content"
    by (auto simp: extract_resume_text_def Let_def extract_text_from_txt_def)
  have 6: "\<forall>doc. str_lower (snd (splitext file_path)) = ''.pdf'' \<and>
      fitz_open fs file_path = Some doc \<and> PageError \<notin> set doc \<longrightarrow>
      extract_resume_text fs file_path = str_strip (concat (map page_text doc))"
    by (simp add: extract_resume_text_def Let_def extract_text_from_pdf_def read_pages_all)
  from 1 2 have 7:
    "str_lower (snd (splitext file_path)) \<notin> set [''.pdf'', ''.txt'', ''.text''] \<longrightarrow>
      recommend_from_file self fs file_path top_k = ([], Inr [])" by blast
  from 1 2 3 4 5 6 7 show ?thesis by blast
qed

theorem recommend_from_file_degrades_witness:
  "str_lower (snd (splitext ''photo.png'')) \<notin> set [''.pdf'', ''.txt'', ''.text''] \<and>
   extract_resume_text example_fs ''photo.png'' = [] \<and>
   recommend_from_file example_engine example_fs ''photo.png'' 5 = ([], Inr []) \<and>
   str_lower (snd (splitext ''old/resume.TXT'')) \<in> set [''.txt'', ''.text''] \<and>
   open_read example_fs ''old/resume.TXT'' = None \<and>
   extract_resume_text example_fs ''old/resume.TXT'' = [] \<and>
   open_read example_fs ''notes.txt'' = Some ''  '' \<and>
   extract_resume_text example_fs ''notes.txt'' = [] \<and>
   recommend_from_file example_engine example_fs ''notes.txt'' 5 = ([], Inr []) \<and>
   str_lower (snd (splitext ''scan.pdf'')) = ''.pdf'' \<and>
   fitz_open example_fs ''scan.pdf'' = None \<and>
   extract_resume_text example_fs ''scan.pdf'' = [] \<and>
   str_lower (snd (splitext ''CV.PDF'')) = ''.pdf'' \<and>
   extract_resume_text example_fs ''CV.PDF'' = example_resume"
proof -
  have a: "str_lower (snd (splitext ''photo.png'')) \<notin> set [''.pdf'', ''.txt'', ''.text'']"
    by code_simp
  have b: "str_lower (snd (splitext ''old/resume.TXT'')) \<in> set [''.txt'', ''.text'']"
    by code_simp
  have c: "open_read example_fs ''old/resume.TXT'' = None" by (simp add: example_fs_def)
  have d: "str_lower (snd (splitext ''scan.pdf'')) = ''.pdf''" by code_simp
  have e: "fitz_open example_fs ''scan.pdf'' = None" by (simp add: example_fs_def)
  have f: "str_lower (snd (splitext ''CV.PDF'')) = ''.pdf''" by code_simp
  have g: "fitz_open example_fs ''CV.PDF'' =
      Some [PageText ''Rust and Python developer, '', PageText ''5 yrs of experience with Docker '']"
    by (simp add: example_fs_def)
  have h: "PageError \<notin> set [PageText ''Rust and Python developer, '',
      PageText ''5 yrs of experience with Docker '']" by simp
  have i: "str_strip (concat (map page_text [PageText ''Rust and Python developer, '',
      PageText ''5 yrs of experience with Docker ''])) = example_resume" by code_simp
  have j: "str_lower (snd (splitext ''notes.txt'')) \<in> set [''.txt'', ''.text'']" by code_simp
  have k: "open_read example_fs ''notes.txt'' = Some ''  ''" by (simp add: example_fs_def)
  have l: "str_strip ''  '' = []" by code_simp
  note t1 = recommend_from_file_degrades [of "''photo.png''" example_fs example_engine 5]
  note t2 = recommend_from_file_degrades [of "''old/resume.TXT''" example_fs]
  note t3 = recommend_from_file_degrades [of "''scan.pdf''" example_fs]
  note t4 = recommend_from_file_degrades [of "''CV.PDF''" example_fs]
  note t5 = recommend_from_file_degrades [of "''notes.txt''" example_fs example_engine 5]
  from t1 a have a1: "extract_resume_text example_fs ''photo.png'' = []" by blast
  with t1 have a2: "recommend_from_file example_engine example_fs ''photo.png'' 5 = ([], Inr [])"
    by blast
  from t2 b c have b1: "extract_resume_text example_fs ''old/resume.TXT'' = []" by blast
  from t3 d e have d1: "extract_resume_text example_fs ''scan.pdf'' = []" by blast
  from t4 f g h have "extract_resume_text example_fs ''CV.PDF'' =
      str_strip (concat (map page_text [PageText ''Rust and Python developer, '',
        PageText ''5 yrs of experience with Docker '']))" by blast
  with i have f1: "extract_resume_text example_fs ''CV.PDF'' = example_resume" by simp
  from t5 j k have "extract_resume_text example_fs ''notes.txt'' = str_strip ''  ''" by blast
  with l have k1: "extract_resume_text example_fs ''notes.txt'' = []" by simp
  with t5 have k2: "recommend_from_file example_engine example_fs ''notes.txt'' 5 = ([], Inr [])"
    by blast
  from a a1 a2 b c b1 k k1 k2 d e d1 f f1 show ?thesis by blast
qed

text \<open>
  C8, as stated, fails on a readable PDF named \<open>CV.PDF\<close>: its extension \<open>.PDF\<close> is none
  of \<open>.pdf\<close>, \<open>.txt\<close> and \<open>.text\<close>, but the source lowercases the extension before it
  compares, the text is extracted and \<open>recommend_from_file\<close> returns three results.
\<close>

theorem recommend_from_file_counterexample:
  "snd (splitext ''CV.PDF'') = ''.PDF'' \<and>
   ''.PDF'' \<notin> set [''.pdf'', ''.txt'', ''.text''] \<and>
   extract_resume_text example_fs ''CV.PDF'' = example_resume \<and>
   recommend_from_file example_engine example_fs ''CV.PDF'' 5 =
     (example_trace, Inr example_results) \<and>
   length example_results = 3"
proof -
  have a: "snd (splitext ''CV.PDF'') = ''.PDF''" by code_simp
  have b: "''.PDF'' \<notin> set [''.pdf'', ''.txt'', ''.text'']" by simp
  have c: "extract_resume_text example_fs ''CV.PDF'' = example_resume" by code_simp
  have "example_resume \<noteq> []" by (simp add: example_resume_def)
  then have d: "recommend_from_file example_engine example_fs ''CV.PDF'' 5 =
      (example_trace, Inr example_results)"
    by (simp add: recommend_from_file_def c example_run)
  have e: "length example_results = 3" by (simp add: example_results_def)
  from a b c d e show ?thesis by blast
qed

text \<open>
  C9. Every element of \<open>matched_skills\<close> of a result of \<open>recommend\<close> is in the
  vocabulary \<open>COMMON_SKILLS\<close>, because the resume skills are: a label outside the
  vocabulary never appears in \<open>matched_skills\<close>, even when the resume and the job both
  name it.
\<close>

theorem matched_skills_in_vocabulary:
  assumes "recommend self resume_text top_k = (trace, Inr results)" and "r \<in> set results"
  shows "set (matched_skills r) \<subseteq> set COMMON_SKILLS \<and>
         set (extract_skills_from_text resume_text) \<subseteq> set COMMON_SKILLS \<and>
         (\<forall>label. label \<notin> set COMMON_SKILLS \<longrightarrow> label \<notin> set (matched_skills r))"
proof -
  from assms obtain rnk row score where mk: "make_result resume_text rnk row score = Inr r"
    by (rule recommend_made)
  have "set (matched_skills r) \<subseteq> set (extract_skills_from_text resume_text)"
    unfolding make_result_fields(4) [OF mk] by auto
  moreover have "set (extract_skills_from_text resume_text) \<subseteq> set COMMON_SKILLS"
    by (auto simp: set_extract_skills)
  ultimately show ?thesis by blast
qed

theorem matched_skills_in_vocabulary_witness:
  "recommend example_engine example_resume 5 = (example_trace, Inr example_results) \<and>
   example_results ! 1 \<in> set example_results \<and>
   sublist ''rust'' (str_lower example_resume) \<and>
   ''rust'' \<in> set (job_skills_of (skills (example_results ! 1))) \<and>
   ''rust'' \<notin> set COMMON_SKILLS \<and>
   ''rust'' \<notin> set (matched_skills (example_results ! 1)) \<and>
   set (matched_skills (example_results ! 1)) \<subseteq> set COMMON_SKILLS"
proof -
  have m1: "example_results ! 1 \<in> set example_results"
    by (simp add: example_results_def)
  have a: "str_contains ''rust'' (str_lower example_resume)" by code_simp
  have b: "job_skills_of (skills (example_results ! 1)) = [''rust'', ''docker'']" by code_simp
  have c: "''rust'' \<notin> set COMMON_SKILLS" by (simp add: COMMON_SKILLS_def)
  note t = matched_skills_in_vocabulary [OF example_run m1]
  from t c have d: "''rust'' \<notin> set (matched_skills (example_results ! 1))" by blast
  from t have e: "set (matched_skills (example_results ! 1)) \<subseteq> set COMMON_SKILLS" by blast
  from a have a': "sublist ''rust'' (str_lower example_resume)"
    by (simp only: str_contains_sublist)
  from b have b': "''rust'' \<in> set (job_skills_of (skills (example_results ! 1)))" by simp
  from example_run m1 a' b' c d e show ?thesis by blast
qed

text \<open>
  C10. Splitting on commas never gives an empty list, so the job skill set has at
  least one element, \<open>max(len(job_skills), 1)\<close> is \<open>len(job_skills)\<close>, the division
  succeeds and \<open>recommend\<close> never raises \<open>ZeroDivisionError\<close>. The skill set of a missing
  skills cell is \<open>{"nan"}\<close> and that of an empty string is \<open>{""}\<close>.
\<close>

theorem job_skills_never_empty:
  "str_split sep s \<noteq> [] \<and>
   1 \<le> length (job_skills_of cell) \<and>
   max (length (job_skills_of cell)) 1 = length (job_skills_of cell) \<and>
   truediv a (real (max (length (job_skills_of cell)) 1)) =
     Inr (a / real (length (job_skills_of cell))) \<and>
   snd (recommend self resume_text top_k) \<noteq> Inl ZeroDivisionError \<and>
   job_skills_of None = [''nan''] \<and>
   job_skills_of (Some []) = [[]]"
proof -
  have n: "1 \<le> length (job_skills_of cell)"
    using job_skills_of_not_Nil [of cell] by (cases "job_skills_of cell") simp_all
  then have m: "max (length (job_skills_of cell)) 1 = length (job_skills_of cell)" by simp
  from n have t: "truediv a (real (max (length (job_skills_of cell)) 1)) =
     Inr (a / real (length (job_skills_of cell)))"
    unfolding m by (simp add: truediv_def job_skills_of_not_Nil)
  have z: "snd (recommend self resume_text top_k) \<noteq> Inl ZeroDivisionError"
    using recommend_error [of self resume_text top_k ZeroDivisionError] by auto
  have e: "job_skills_of None = [''nan'']" "job_skills_of (Some []) = [[]]"
    by code_simp+
  from str_split_not_Nil n m t z e show ?thesis by blast
qed

end
